theory Spec2Isabelle
  imports Complex_Main "HOL-Library.Sublist"
begin

section \<open>Common vocabulary: tiers, exceptions, vectors\<close>

text \<open>
  Modelled from the spec: the enumeration \<^verbatim>\<open>pagmo::thread_safety\<close> is declared in
  \<^verbatim>\<open>pagmo/threading.hpp\<close>, which is not among the sources. The spec gives the total order
  \<^verbatim>\<open>none < copy_only < basic < constant\<close>; the sources compare tiers after
  \<^verbatim>\<open>static_cast<int>\<close> and with \<^verbatim>\<open>>=\<close>, so the order is carried by \<open>ts_int\<close>.
  (\<open>constant\<close> is a reserved word of the prover, hence the prefix.)
\<close>

datatype thread_safety = ts_none | ts_copyonly | ts_basic | ts_constant

fun ts_int :: "thread_safety \<Rightarrow> int" where
  "ts_int ts_none = 0"
| "ts_int ts_copyonly = 1"
| "ts_int ts_basic = 2"
| "ts_int ts_constant = 3"

text \<open>
  Exceptions are values. \<^verbatim>\<open>pagmo_throw(type, msg)\<close> raises an exception of the given
  standard type; the constructor carries the message handed to the macro. \<open>other_error\<close>
  stands for whatever user code (a fitness function, an algorithm, a driver) may throw.
  \<open>length_error\<close> and \<open>bad_alloc\<close> are what the constructor of a \<^verbatim>\<open>std::vector\<close> throws
  when the requested size exceeds \<^verbatim>\<open>max_size()\<close> or the memory is not there.
  A failed \<^verbatim>\<open>assert\<close> and an operation without defined behaviour (integer division by
  zero) are not exceptions: no \<^verbatim>\<open>catch\<close> sees them, the program stops. They are the
  \<open>Abort\<close> outcomes.
\<close>

datatype exn =
    invalid_argument string
  | overflow_error string
  | length_error string
  | bad_alloc
  | system_error string
  | bad_numeric_cast string
  | other_error string

datatype failure = Throw exn | Abort string

text \<open>
  \<^verbatim>\<open>vector_double\<close> is \<^verbatim>\<open>std::vector<double>\<close>. The code in scope never computes with
  the coordinates, it only copies them and counts them, so the coordinate type only has
  to be some type of numbers.
\<close>

type_synonym vector_double = "real list"

text \<open>The apostrophe of the C++ message literals, which a string literal here cannot end with.\<close>

definition sq :: string where
  "sq = [CHR 0x27]"

section \<open>The external collaborators: problem, algorithm, population\<close>

text \<open>
  Modelled from the spec: \<^verbatim>\<open>pagmo::problem\<close> (\<^verbatim>\<open>pagmo/problem.hpp\<close>) is not among the
  sources. The spec's data model gives it a name, the dimensions \<open>nx\<close> and \<open>nf\<close>, a
  thread-safety tier, a fitness function, an optional batch fitness function and an
  internal counter of fitness evaluations; a problem may also mark some of the \<open>nx\<close>
  components of a decision vector as integer-only (\<open>prob_integer_only j\<close> for component
  \<open>j\<close>). The record holds what is fixed at
  construction; the counter \<^verbatim>\<open>m_fevals\<close> is a \<^verbatim>\<open>mutable\<close> member that changes behind
  \<^verbatim>\<open>const problem &\<close>, and is passed as explicit state wherever a problem is called.
\<close>

record problem =
  prob_name :: string
  prob_nx :: nat
  prob_nf :: nat
  prob_thread_safety :: thread_safety
  udp_fitness :: "vector_double \<Rightarrow> exn + vector_double"
  udp_batch_fitness :: "(vector_double \<Rightarrow> exn + vector_double) option"
  prob_integer_only :: "nat \<Rightarrow> bool"

text \<open>
  Modelled from the spec: \<^verbatim>\<open>pagmo::population\<close> carries a problem by value and a set of
  individuals (decision vector and fitness); \<^verbatim>\<open>pagmo::algorithm\<close> is copy-constructible
  and exposes \<^verbatim>\<open>evolve(pop) -> pop\<close>, \<^verbatim>\<open>get_thread_safety\<close> and \<^verbatim>\<open>get_name\<close>. Neither class
  is among the sources. \<^verbatim>\<open>evolve\<close> runs user code and may throw.
\<close>

record population =
  get_problem :: problem
  individuals :: "(vector_double \<times> vector_double) list"

record algorithm =
  algo_name :: string
  algo_thread_safety :: thread_safety
  algo_evolve :: "population \<Rightarrow> exn + population"

section \<open>\<^verbatim>\<open>thread_island\<close> (island.hpp)\<close>

text \<open>
  \<^verbatim>\<open>check_thread_safety\<close> is a template over the checked object; it reads the object's
  tier and its name, which are the two arguments here. \<open>None\<close> is a normal return.
\<close>

definition check_thread_safety :: "string \<Rightarrow> thread_safety \<Rightarrow> exn option" where
  "check_thread_safety name ts =
     (if ts_int ts < ts_int ts_basic then
        Some (invalid_argument
          (''thread islands require objects which provide at least the basic thread safety level, but the object ''
            @ sq @ name @ sq @ '' provides only the '' @ sq
            @ (if ts = ts_copyonly then ''copyonly'' else ''none'')
            @ sq @ '' thread safety guarantee''))
      else None)"

text \<open>
  The four references handed to \<^verbatim>\<open>run_evolve\<close>: the algorithm, the population, and the
  two \<^verbatim>\<open>std::unique_lock\<close>s, each reduced to whether it owns its mutex. \<open>steps\<close> records
  the operations performed, in order; it is the only component that is not program state.
\<close>

datatype step =
    CopyAlgo | UnlockAlgo | CopyPop | UnlockPop | Evolve | LockPop | AssignPop

record evolve_refs =
  algo :: algorithm
  algo_lock :: bool
  pop :: population
  pop_lock :: bool
  steps :: "step list"

type_synonym 'a evolve_prog = "evolve_refs \<Rightarrow> (failure + 'a) \<times> evolve_refs"

definition then_do :: "'a evolve_prog \<Rightarrow> ('a \<Rightarrow> 'b evolve_prog) \<Rightarrow> 'b evolve_prog" where
  "then_do m f s = (case m s of (Inl e, s') \<Rightarrow> (Inl e, s') | (Inr a, s') \<Rightarrow> f a s')"

definition log_step :: "step \<Rightarrow> evolve_refs \<Rightarrow> evolve_refs" where
  "log_step st s = s\<lparr>steps := steps s @ [st]\<rparr>"

definition check_algo :: "unit evolve_prog" where
  "check_algo s =
     (case check_thread_safety (algo_name (algo s)) (algo_thread_safety (algo s)) of
        Some e \<Rightarrow> (Inl (Throw e), s)
      | None \<Rightarrow> (Inr (), s))"

definition check_prob :: "unit evolve_prog" where
  "check_prob s =
     (case check_thread_safety (prob_name (get_problem (pop s)))
                               (prob_thread_safety (get_problem (pop s))) of
        Some e \<Rightarrow> (Inl (Throw e), s)
      | None \<Rightarrow> (Inr (), s))"

definition copy_algo :: "algorithm evolve_prog" where
  "copy_algo s = (Inr (algo s), log_step CopyAlgo s)"

definition copy_pop :: "population evolve_prog" where
  "copy_pop s = (Inr (pop s), log_step CopyPop s)"

text \<open>
  \<^verbatim>\<open>std::unique_lock::unlock\<close> throws \<^verbatim>\<open>std::system_error\<close> when the lock does not own the
  mutex, and \<^verbatim>\<open>lock\<close> throws it when the lock already owns it.
\<close>

definition unlock_algo :: "unit evolve_prog" where
  "unlock_algo s =
     (if algo_lock s then (Inr (), log_step UnlockAlgo (s\<lparr>algo_lock := False\<rparr>))
      else (Inl (Throw (system_error ''operation not permitted'')), s))"

definition unlock_pop :: "unit evolve_prog" where
  "unlock_pop s =
     (if pop_lock s then (Inr (), log_step UnlockPop (s\<lparr>pop_lock := False\<rparr>))
      else (Inl (Throw (system_error ''operation not permitted'')), s))"

definition lock_pop :: "unit evolve_prog" where
  "lock_pop s =
     (if pop_lock s then (Inl (Throw (system_error ''resource deadlock would occur'')), s)
      else (Inr (), log_step LockPop (s\<lparr>pop_lock := True\<rparr>)))"

definition call_evolve :: "algorithm \<Rightarrow> population \<Rightarrow> population evolve_prog" where
  "call_evolve algo_copy pop_copy s =
     (case algo_evolve algo_copy pop_copy of
        Inl e \<Rightarrow> (Inl (Throw e), log_step Evolve s)
      | Inr new_pop \<Rightarrow> (Inr new_pop, log_step Evolve s))"

definition assign_pop :: "population \<Rightarrow> unit evolve_prog" where
  "assign_pop new_pop s = (Inr (), log_step AssignPop (s\<lparr>pop := new_pop\<rparr>))"

definition run_evolve :: "unit evolve_prog" where
  "run_evolve =
     then_do check_algo (\<lambda>_.
     then_do check_prob (\<lambda>_.
     then_do copy_algo (\<lambda>algo_copy.
     then_do unlock_algo (\<lambda>_.
     then_do copy_pop (\<lambda>pop_copy.
     then_do unlock_pop (\<lambda>_.
     then_do (call_evolve algo_copy pop_copy) (\<lambda>new_pop.
     then_do lock_pop (\<lambda>_.
     assign_pop new_pop))))))))"

section \<open>\<^verbatim>\<open>island\<close>: pending futures, \<^verbatim>\<open>evolve()\<close> and \<^verbatim>\<open>wait()\<close> (island.hpp)\<close>

text \<open>
  A \<^verbatim>\<open>std::future<void>\<close> either has no shared state (default-constructed, or already
  consumed by \<^verbatim>\<open>get()\<close>), or refers to a task whose outcome \<^verbatim>\<open>get()\<close> will deliver once
  the task has run: \<open>None\<close> for a normal return, \<open>Some e\<close> for a stored exception.
  \<^verbatim>\<open>get()\<close> blocks until the task is done; that tasks end is taken for granted here.
  Calling \<^verbatim>\<open>get()\<close> on a future without shared state has no defined behaviour.
\<close>

datatype future = no_state | shared_state "exn option"

definition valid :: "future \<Rightarrow> bool" where
  "valid f = (f \<noteq> no_state)"

definition future_get :: "future \<Rightarrow> (failure + unit) \<times> future" where
  "future_get f =
     (case f of
        no_state \<Rightarrow> (Inl (Abort ''get() on a future without shared state''), no_state)
      | shared_state None \<Rightarrow> (Inr (), no_state)
      | shared_state (Some e) \<Rightarrow> (Inl (Throw e), no_state))"

text \<open>
  The closure that \<^verbatim>\<open>evolve()\<close> submits captures the pointer to the data block; there is
  one such closure. The operations of \<^verbatim>\<open>evolve()\<close> and \<^verbatim>\<open>wait()\<close> on the shared data are
  recorded as a list of \<open>isl_step\<close>s next to the result.
\<close>

datatype task = evolve_task

datatype isl_step =
    lock_futures_mutex
  | unlock_futures_mutex
  | emplace_back
  | enqueue_call
  | assign_back
  | pop_back
  | get nat
  | clear

text \<open>
  The members of \<^verbatim>\<open>detail::island_data\<close> that \<^verbatim>\<open>evolve()\<close> and \<^verbatim>\<open>wait()\<close> touch. The
  functions below are written for any extension of the record, so every other member
  (the driver, algorithm, population, their mutexes, the archipelago pointer) is carried
  along untouched.
\<close>

record island_data =
  futures :: "future list"
  queue :: "task list"

text \<open>
  Modelled from the spec: \<^verbatim>\<open>task_queue\<close> (\<^verbatim>\<open>pagmo/detail/task_queue.hpp\<close>) is not among
  the sources. The spec describes a FIFO of submitted closures that returns completion
  handles, and the comment at the call site says that \<^verbatim>\<open>enqueue\<close> either returns a valid
  future, or throws without having enqueued any task. Which of the two happens is decided
  outside the program (threads, memory); it is the first argument.
\<close>

definition enqueue :: "exn + future \<Rightarrow> task \<Rightarrow> task list \<Rightarrow> exn + (future \<times> task list)" where
  "enqueue outcome t q =
     (case outcome of
        Inl e \<Rightarrow> Inl e
      | Inr f \<Rightarrow> Inr (f, q @ [t]))"

definition evolve ::
  "exn + future \<Rightarrow> 'a island_data_scheme \<Rightarrow> (exn + unit) \<times> 'a island_data_scheme \<times> isl_step list"
where
  "evolve outcome d =
     (let d1 = d\<lparr>futures := futures d @ [no_state]\<rparr> in
      case enqueue outcome evolve_task (queue d1) of
        Inr (f, q) \<Rightarrow>
          (Inr (),
           d1\<lparr>futures := (futures d1)[length (futures d1) - 1 := f], queue := q\<rparr>,
           [lock_futures_mutex, emplace_back, enqueue_call, assign_back, unlock_futures_mutex])
      | Inl e \<Rightarrow>
          (Inl e,
           d1\<lparr>futures := butlast (futures d1)\<rparr>,
           [lock_futures_mutex, emplace_back, enqueue_call, pop_back, unlock_futures_mutex]))"

text \<open>
  The inner loop of \<^verbatim>\<open>wait()\<close>: \<^verbatim>\<open>for (i = i + 1u; i < size; ++i) try get catch (...) {}\<close>.
  It returns the futures after the calls, the \<^verbatim>\<open>get\<close>s made, and an abort if one happened
  (an exception is swallowed, an abort is not).
\<close>

function drain :: "future list \<Rightarrow> nat \<Rightarrow> string option \<times> future list \<times> isl_step list" where
  "drain fs i =
     (if i < length fs then
        (case future_get (fs ! i) of
           (Inl (Abort a), f') \<Rightarrow> (Some a, fs[i := f'], [get i])
         | (_, f') \<Rightarrow>
             (case drain (fs[i := f']) (i + 1) of (r, fs', st) \<Rightarrow> (r, fs', get i # st)))
      else (None, fs, []))"
  by pat_completeness auto
termination
  by (relation "measure (\<lambda>(fs, i). length fs - i)") auto

text \<open>
  The outer loop of \<^verbatim>\<open>wait()\<close> from index \<open>i\<close>, with both \<^verbatim>\<open>futures.clear()\<close> calls.
\<close>

function wait_loop :: "future list \<Rightarrow> nat \<Rightarrow> (failure + unit) \<times> future list \<times> isl_step list" where
  "wait_loop fs i =
     (if i < length fs then
        (if \<not> valid (fs ! i) then (Inl (Abort ''assert(futures[i].valid())''), fs, [])
         else
           (case future_get (fs ! i) of
              (Inr u, f') \<Rightarrow>
                (case wait_loop (fs[i := f']) (i + 1) of (r, fs', st) \<Rightarrow> (r, fs', get i # st))
            | (Inl (Throw e), f') \<Rightarrow>
                (case drain (fs[i := f']) (i + 1) of
                   (Some a, fs', st) \<Rightarrow> (Inl (Abort a), fs', get i # st)
                 | (None, fs', st) \<Rightarrow> (Inl (Throw e), [], get i # st @ [clear]))
            | (Inl (Abort a), f') \<Rightarrow> (Inl (Abort a), fs[i := f'], [get i])))
      else (Inr (), [], [clear]))"
  by pat_completeness auto
termination
  by (relation "measure (\<lambda>(fs, i). length fs - i)") auto

text \<open>
  \<^verbatim>\<open>island::wait()\<close>. The hook \<^verbatim>\<open>wait_raii<>::getter()\<close> has its default value, which
  does nothing. The \<^verbatim>\<open>lock_guard\<close> releases the mutex on every exit that unwinds.
\<close>

definition wait ::
  "'a island_data_scheme \<Rightarrow> (failure + unit) \<times> 'a island_data_scheme \<times> isl_step list"
where
  "wait d =
     (case wait_loop (futures d) 0 of
        (Inl (Abort a), fs', st) \<Rightarrow> (Inl (Abort a), d\<lparr>futures := fs'\<rparr>, lock_futures_mutex # st)
      | (r, fs', st) \<Rightarrow> (r, d\<lparr>futures := fs'\<rparr>, lock_futures_mutex # st @ [unlock_futures_mutex]))"

text \<open>
  What the spec says \<^verbatim>\<open>wait()\<close> reports: the first stored error in submission order, if
  any. This definition follows the spec's words and is compared with \<open>wait\<close> below.
\<close>

fun first_error :: "future list \<Rightarrow> failure + unit" where
  "first_error [] = Inr ()"
| "first_error (shared_state (Some e) # fs) = Inl (Throw e)"
| "first_error (f # fs) = first_error fs"

section \<open>Calls on a problem (bfe.hpp and its collaborators)\<close>

text \<open>
  A call through \<^verbatim>\<open>const problem &p\<close> can change only the counter \<^verbatim>\<open>m_fevals\<close> of the
  object it is made on. Two objects matter: the problem the caller passed, and a copy of
  it that a parallel body captured by value. Every function that calls a problem takes
  the current counter of the caller's problem and returns its result, the counter
  afterwards, and the calls it made, in order, each with the object it was made on.
\<close>

datatype obj = the_problem | a_copy

datatype call =
    fitness_call obj vector_double
  | batch_fitness_call obj vector_double
  | increment_fevals_call obj nat

type_synonym 'a eff = "(failure + 'a) \<times> nat \<times> call list"

text \<open>
  Modelled from the spec: \<^verbatim>\<open>problem::fitness\<close> is not among the sources. The spec types it
  as \<^verbatim>\<open>fitness(dv: [f64; nx]) -> [f64; nf]\<close> and says that it increments the internal
  \<^verbatim>\<open>fevals\<close> counter on success. A user fitness that throws, or that returns a vector of
  another length than \<open>nf\<close>, is a failure of the call and leaves the counter alone.
  The second argument says on which object the call is made and the third is that
  object's counter.
\<close>

definition fitness :: "problem \<Rightarrow> obj \<Rightarrow> nat \<Rightarrow> vector_double \<Rightarrow> vector_double eff" where
  "fitness prob who fevals dv =
     (case udp_fitness prob dv of
        Inl e \<Rightarrow> (Inl (Throw e), fevals, [fitness_call who dv])
      | Inr fv \<Rightarrow>
          if length fv \<noteq> prob_nf prob then
            (Inl (Throw (invalid_argument ''fitness vector of the wrong length'')), fevals,
             [fitness_call who dv])
          else (Inr fv, fevals + 1, [fitness_call who dv]))"

text \<open>
  Modelled from the spec: \<^verbatim>\<open>problem::increment_fevals(n)\<close> is not among the sources; the
  spec has it add \<open>n\<close> to the counter of the object it is called on.
\<close>

definition increment_fevals :: "obj \<Rightarrow> nat \<Rightarrow> nat \<Rightarrow> unit eff" where
  "increment_fevals who fevals n = (Inr (), fevals + n, [increment_fevals_call who n])"

text \<open>
  Modelled from the spec: \<^verbatim>\<open>problem::has_batch_fitness\<close> and
  \<^verbatim>\<open>detail::prob_invoke_mem_batch_fitness\<close> (\<^verbatim>\<open>pagmo/detail/bfe_impl.hpp\<close>) are not among the
  sources. The spec makes \<^verbatim>\<open>batch_fitness\<close> optional, gated by \<^verbatim>\<open>has_batch_fitness\<close>, and
  says of \<^verbatim>\<open>member_bfe\<close> that it requires \<^verbatim>\<open>has_batch_fitness\<close>, forwards the call, and lets
  the problem's errors surface unchanged. The spec does not say what the forwarded call
  does to the counter; it is left as it is.
\<close>

definition has_batch_fitness :: "problem \<Rightarrow> bool" where
  "has_batch_fitness p = (udp_batch_fitness p \<noteq> None)"

definition prob_invoke_mem_batch_fitness :: "problem \<Rightarrow> nat \<Rightarrow> vector_double \<Rightarrow> vector_double eff" where
  "prob_invoke_mem_batch_fitness p fevals dvs =
     (case udp_batch_fitness p of
        None \<Rightarrow>
          (Inl (Throw (invalid_argument ''the batch_fitness() member function is not implemented'')),
           fevals, [])
      | Some f \<Rightarrow>
          (case f dvs of
             Inl e \<Rightarrow> (Inl (Throw e), fevals, [batch_fitness_call the_problem dvs])
           | Inr fvs \<Rightarrow> (Inr fvs, fevals, [batch_fitness_call the_problem dvs])))"

section \<open>\<^verbatim>\<open>thread_bfe\<close> (bfe.hpp)\<close>

text \<open>
  What the code takes from its platform and from the TBB scheduler:
  \<^item> \<open>size_max\<close> is \<^verbatim>\<open>std::numeric_limits<vector_double::size_type>::max()\<close>, the largest
    value of the index type of \<^verbatim>\<open>std::vector<double>\<close> (\<^verbatim>\<open>std::size_t\<close>);
  \<^item> \<open>max_size\<close> is \<^verbatim>\<open>vector_double::max_size()\<close>, the largest number of elements a
    \<^verbatim>\<open>std::vector<double>\<close> may be asked to hold;
  \<^item> \<open>can_allocate n\<close> says whether the memory for \<open>n\<close> doubles is there in this run;
  \<^item> \<open>ullong_max\<close> is the largest \<^verbatim>\<open>unsigned long long\<close>, the target of the
    \<^verbatim>\<open>boost::numeric_cast\<close>;
  \<^item> \<open>tbb_split n\<close> is the list of blocks \<open>(begin, end)\<close> into which
    \<^verbatim>\<open>tbb::parallel_for\<close> splits the range \<open>[0, n)\<close> in this run, in the order in which
    their effects are observed.
  Sizes are natural numbers; the guard below keeps every product that the code computes
  within \<open>size_max\<close>.
\<close>

record runtime =
  size_max :: nat
  max_size :: nat
  can_allocate :: "nat \<Rightarrow> bool"
  ullong_max :: nat
  tbb_split :: "nat \<Rightarrow> (nat \<times> nat) list"

text \<open>
  The constructor \<^verbatim>\<open>vector_double v(n)\<close>, used for \<^verbatim>\<open>retval\<close> and for \<^verbatim>\<open>tmp_dv\<close>: it throws
  \<^verbatim>\<open>std::length_error\<close> when \<open>n\<close> exceeds \<^verbatim>\<open>max_size()\<close> and \<^verbatim>\<open>std::bad_alloc\<close> when the
  memory cannot be had; \<open>None\<close> is a vector of \<open>n\<close> zeros.
\<close>

definition allocate :: "runtime \<Rightarrow> nat \<Rightarrow> exn option" where
  "allocate rt n =
     (if n > max_size rt then
        Some (length_error ''cannot create std::vector larger than max_size()'')
      else if \<not> can_allocate rt n then Some bad_alloc
      else None)"

text \<open>
  The loop of the \<^verbatim>\<open>range_evaluator\<close> lambda: \<^verbatim>\<open>for (; begin != end; ++begin)\<close>. It is
  entered after \<^verbatim>\<open>assert(begin <= end)\<close>, where \<^verbatim>\<open>begin != end\<close> is \<open>begin < end\<close>. Each
  round copies the \<open>begin\<close>-th decision vector into \<^verbatim>\<open>tmp_dv\<close>, calls \<^verbatim>\<open>prob.fitness\<close>,
  and copies the fitness into \<^verbatim>\<open>retval\<close> at offset \<open>begin * f_dim\<close>.
\<close>

function range_loop ::
  "vector_double \<Rightarrow> nat \<Rightarrow> nat \<Rightarrow> problem \<Rightarrow> obj \<Rightarrow> nat \<Rightarrow> nat \<Rightarrow> nat \<Rightarrow> vector_double
   \<Rightarrow> vector_double eff"
where
  "range_loop dvs n_dim f_dim prob who begin end' fevals retval =
     (if begin < end' then
        (let tmp_dv = take n_dim (drop (begin * n_dim) dvs) in
         case fitness prob who fevals tmp_dv of
           (Inl x, fevals', cs) \<Rightarrow> (Inl x, fevals', cs)
         | (Inr fv, fevals', cs) \<Rightarrow>
             if length fv \<noteq> f_dim then (Inl (Abort ''assert(fv.size() == f_dim)''), fevals', cs)
             else
               (case range_loop dvs n_dim f_dim prob who (begin + 1) end' fevals'
                       (take (begin * f_dim) retval @ fv @ drop (begin * f_dim + f_dim) retval) of
                  (r, fevals'', cs') \<Rightarrow> (r, fevals'', cs @ cs')))
      else (Inr retval, fevals, []))"
  by pat_completeness auto
termination
  by (relation "measure (\<lambda>(dvs, n_dim, f_dim, prob, who, begin, end', fevals, retval). end' - begin)")
     auto

text \<open>
  The \<^verbatim>\<open>range_evaluator\<close> lambda: the two assertions, the construction of
  \<^verbatim>\<open>tmp_dv(n_dim)\<close>, the loop.
\<close>

definition range_evaluator ::
  "runtime \<Rightarrow> vector_double \<Rightarrow> nat \<Rightarrow> nat \<Rightarrow> nat \<Rightarrow> problem \<Rightarrow> obj \<Rightarrow> nat \<Rightarrow> nat \<Rightarrow> nat
   \<Rightarrow> vector_double \<Rightarrow> vector_double eff"
where
  "range_evaluator rt dvs n_dim f_dim n_dvs prob who begin end' fevals retval =
     (if \<not> begin \<le> end' then (Inl (Abort ''assert(begin <= end)''), fevals, [])
      else if \<not> end' \<le> n_dvs then (Inl (Abort ''assert(end <= n_dvs)''), fevals, [])
      else
        (case allocate rt n_dim of
           Some e \<Rightarrow> (Inl (Throw e), fevals, [])
         | None \<Rightarrow> range_loop dvs n_dim f_dim prob who begin end' fevals retval))"

text \<open>
  \<^verbatim>\<open>tbb::parallel_for\<close> over the blocks of the split. In the program the blocks run on
  several threads; here they run one after the other, in the order of the split, which
  is any order at all since the split is a parameter. That loses nothing the program
  relies on: the blocks write disjoint parts of \<^verbatim>\<open>retval\<close>, and all they share is the
  counter of the caller's problem, which is atomic. The body gets a block, the counter of
  the caller's problem and the output buffer. An exception in a block ends the region and
  is rethrown to the caller.
\<close>

fun parallel_for ::
  "(nat \<times> nat) list \<Rightarrow> (nat \<times> nat \<Rightarrow> nat \<Rightarrow> vector_double \<Rightarrow> vector_double eff)
   \<Rightarrow> nat \<Rightarrow> vector_double \<Rightarrow> vector_double eff"
where
  "parallel_for [] body fevals retval = (Inr retval, fevals, [])"
| "parallel_for (rng # rngs) body fevals retval =
     (case body rng fevals retval of
        (Inl x, fevals', cs) \<Rightarrow> (Inl x, fevals', cs)
      | (Inr retval', fevals', cs) \<Rightarrow>
          (case parallel_for rngs body fevals' retval' of
             (r, fevals'', cs') \<Rightarrow> (r, fevals'', cs @ cs')))"

text \<open>
  The two bodies. \<^verbatim>\<open>[&p, &range_evaluator]\<close> calls the caller's problem itself.
  \<^verbatim>\<open>[p, &range_evaluator]\<close> holds a copy of the problem: the copy starts with the counter
  the caller's problem has, and whatever the calls do to the copy's counter is lost with
  the copy.
\<close>

definition body_by_reference ::
  "runtime \<Rightarrow> vector_double \<Rightarrow> nat \<Rightarrow> nat \<Rightarrow> nat \<Rightarrow> problem \<Rightarrow> nat \<times> nat \<Rightarrow> nat
   \<Rightarrow> vector_double \<Rightarrow> vector_double eff"
where
  "body_by_reference rt dvs n_dim f_dim n_dvs p rng fevals retval =
     range_evaluator rt dvs n_dim f_dim n_dvs p the_problem (fst rng) (snd rng) fevals retval"

definition body_by_copy ::
  "runtime \<Rightarrow> vector_double \<Rightarrow> nat \<Rightarrow> nat \<Rightarrow> nat \<Rightarrow> problem \<Rightarrow> nat \<times> nat \<Rightarrow> nat
   \<Rightarrow> vector_double \<Rightarrow> vector_double eff"
where
  "body_by_copy rt dvs n_dim f_dim n_dvs p rng fevals retval =
     (case range_evaluator rt dvs n_dim f_dim n_dvs p a_copy (fst rng) (snd rng) fevals retval of
        (r, fevals_of_copy, cs) \<Rightarrow> (r, fevals, cs))"

text \<open>
  \<^verbatim>\<open>boost::numeric_cast<unsigned long long>\<close> throws when the value does not fit.
\<close>

definition numeric_cast_ull :: "runtime \<Rightarrow> nat \<Rightarrow> exn + nat" where
  "numeric_cast_ull rt n =
     (if n > ullong_max rt then Inl (bad_numeric_cast ''bad numeric conversion: positive overflow'')
      else Inr n)"

definition thread_bfe :: "runtime \<Rightarrow> problem \<Rightarrow> nat \<Rightarrow> vector_double \<Rightarrow> vector_double eff" where
  "thread_bfe rt p fevals dvs =
     (let n_dim = prob_nx p; f_dim = prob_nf p in
      if n_dim = 0 then (Inl (Abort ''division by zero''), fevals, [])
      else
        let n_dvs = length dvs div n_dim in
        if length dvs mod n_dim \<noteq> 0 then (Inl (Abort ''assert(dvs.size() % n_dim == 0u)''), fevals, [])
        else if f_dim = 0 then (Inl (Abort ''division by zero''), fevals, [])
        else if n_dvs > size_max rt div f_dim then
          (Inl (Throw (overflow_error
             ''Overflow detected in the computation of the size of the output of a thread_bfe'')),
           fevals, [])
        else
          (case allocate rt (n_dvs * f_dim) of
             Some e \<Rightarrow> (Inl (Throw e), fevals, [])
           | None \<Rightarrow>
               let retval = replicate (n_dvs * f_dim) 0 in
               if ts_int (prob_thread_safety p) \<ge> ts_int ts_constant then
                 parallel_for (tbb_split rt n_dvs) (body_by_reference rt dvs n_dim f_dim n_dvs p)
                   fevals retval
               else if prob_thread_safety p = ts_basic then
                 (case parallel_for (tbb_split rt n_dvs) (body_by_copy rt dvs n_dim f_dim n_dvs p)
                         fevals retval of
                    (Inl x, fevals', cs) \<Rightarrow> (Inl x, fevals', cs)
                  | (Inr retval', fevals', cs) \<Rightarrow>
                      (case numeric_cast_ull rt n_dvs of
                         Inl e \<Rightarrow> (Inl (Throw e), fevals', cs)
                       | Inr n \<Rightarrow>
                           (case increment_fevals the_problem fevals' n of
                              (u, fevals'', cs') \<Rightarrow> (Inr retval', fevals'', cs @ cs'))))
               else
                 (Inl (Throw (invalid_argument
                    (''Cannot use a thread_bfe on the problem '' @ sq @ prob_name p @ sq
                     @ '', which does not provide the required level of thread safety''))),
                  fevals, [])))"

section \<open>\<^verbatim>\<open>member_bfe\<close> and \<^verbatim>\<open>default_bfe\<close> (bfe.hpp)\<close>

definition member_bfe :: "problem \<Rightarrow> nat \<Rightarrow> vector_double \<Rightarrow> vector_double eff" where
  "member_bfe p fevals dvs = prob_invoke_mem_batch_fitness p fevals dvs"

definition default_bfe_cpp_impl :: "runtime \<Rightarrow> problem \<Rightarrow> nat \<Rightarrow> vector_double \<Rightarrow> vector_double eff" where
  "default_bfe_cpp_impl rt p fevals dvs =
     (if has_batch_fitness p then member_bfe p fevals dvs
      else if ts_int (prob_thread_safety p) \<ge> ts_int ts_basic then thread_bfe rt p fevals dvs
      else
        (Inl (Throw (invalid_argument
           (''Cannot execute fitness evaluations in batch mode for a problem of type '' @ sq
            @ prob_name p @ sq
            @ '': the problem does not implement the batch_fitness() member function, and its thread safety ''
            @ ''level is not sufficient to run a thread-based batch fitness evaluation implementation''))),
         fevals, []))"

text \<open>
  The static member \<^verbatim>\<open>default_bfe_impl<>::s_func\<close> is initialised with
  \<^verbatim>\<open>&default_bfe_cpp_impl\<close> and nothing in the sources assigns it again.
\<close>

definition s_func :: "runtime \<Rightarrow> problem \<Rightarrow> nat \<Rightarrow> vector_double \<Rightarrow> vector_double eff" where
  "s_func = default_bfe_cpp_impl"

definition default_bfe :: "runtime \<Rightarrow> problem \<Rightarrow> nat \<Rightarrow> vector_double \<Rightarrow> vector_double eff" where
  "default_bfe rt p fevals dvs = s_func rt p fevals dvs"

section \<open>The \<^verbatim>\<open>bfe\<close> container (bfe.hpp)\<close>

text \<open>
  \<^verbatim>\<open>detail::bfe_inner<T>\<close> holds the user's driver \<^verbatim>\<open>m_value\<close> of type \<^verbatim>\<open>T\<close>; the type
  \<^verbatim>\<open>T\<close> fixes the call operator, the copy constructor, \<^verbatim>\<open>typeid(T).name()\<close>, and which of
  the optional methods exist. The type is a type variable here and what it fixes are
  fields next to the value.
\<close>

record 'u bfe_inner =
  m_value :: 'u
  call_operator :: "'u \<Rightarrow> problem \<Rightarrow> nat \<Rightarrow> vector_double \<Rightarrow> vector_double eff"
  copy_constructor :: "'u \<Rightarrow> 'u"
  typeid_name :: string
  user_get_name :: "('u \<Rightarrow> string) option"
  user_get_extra_info :: "('u \<Rightarrow> string) option"
  user_get_thread_safety :: "('u \<Rightarrow> thread_safety) option"

definition clone :: "'u bfe_inner \<Rightarrow> 'u bfe_inner" where
  "clone i = i\<lparr>m_value := copy_constructor i (m_value i)\<rparr>"

definition inner_call :: "'u bfe_inner \<Rightarrow> problem \<Rightarrow> nat \<Rightarrow> vector_double \<Rightarrow> vector_double eff" where
  "inner_call i p fevals dvs = call_operator i (m_value i) p fevals dvs"

definition inner_get_name :: "'u bfe_inner \<Rightarrow> string" where
  "inner_get_name i =
     (case user_get_name i of Some g \<Rightarrow> g (m_value i) | None \<Rightarrow> typeid_name i)"

definition inner_get_extra_info :: "'u bfe_inner \<Rightarrow> string" where
  "inner_get_extra_info i =
     (case user_get_extra_info i of Some g \<Rightarrow> g (m_value i) | None \<Rightarrow> [])"

definition inner_get_thread_safety :: "'u bfe_inner \<Rightarrow> thread_safety" where
  "inner_get_thread_safety i =
     (case user_get_thread_safety i of Some g \<Rightarrow> g (m_value i) | None \<Rightarrow> ts_basic)"

text \<open>
  The \<^verbatim>\<open>bfe\<close> itself. \<open>m_ptr = None\<close> is the null pointer of a moved-from object; the
  private helper \<^verbatim>\<open>ptr()\<close> asserts that the pointer is not null.
\<close>

record 'u bfe =
  m_ptr :: "'u bfe_inner option"
  m_name :: string
  m_thread_safety :: thread_safety

definition bfe_ctor :: "'u bfe_inner \<Rightarrow> 'u bfe" where
  "bfe_ctor x = \<lparr>m_ptr = Some x, m_name = inner_get_name x,
                 m_thread_safety = inner_get_thread_safety x\<rparr>"

definition bfe_copy :: "'u bfe \<Rightarrow> failure + 'u bfe" where
  "bfe_copy other =
     (case m_ptr other of
        None \<Rightarrow> Inl (Abort ''assert(m_ptr.get() != nullptr)'')
      | Some i \<Rightarrow>
          Inr \<lparr>m_ptr = Some (clone i), m_name = m_name other,
               m_thread_safety = m_thread_safety other\<rparr>)"

definition get_name :: "'u bfe \<Rightarrow> string" where
  "get_name b = m_name b"

definition get_thread_safety :: "'u bfe \<Rightarrow> thread_safety" where
  "get_thread_safety b = m_thread_safety b"

definition get_extra_info :: "'u bfe \<Rightarrow> failure + string" where
  "get_extra_info b =
     (case m_ptr b of
        None \<Rightarrow> Inl (Abort ''assert(m_ptr.get() != nullptr)'')
      | Some i \<Rightarrow> Inr (inner_get_extra_info i))"

text \<open>
  Modelled from the spec: \<^verbatim>\<open>detail::bfe_check_input_dvs\<close> and
  \<^verbatim>\<open>detail::bfe_check_output_fvs\<close> (\<^verbatim>\<open>pagmo/detail/bfe_impl.hpp\<close>) are not among the sources.
  The spec's input check is: \<^verbatim>\<open>len(dvs) % p.nx == 0\<close>; \<^verbatim>\<open>p.nx > 0\<close>; the values of
  integer-only decision components are integral; a failure is an error with no side
  effects. Its output check is: the returned length equals \<^verbatim>\<open>(len(dvs)/p.nx) * p.nf\<close>; a
  failure is an error. The texts of the messages are not given by the spec.
\<close>

definition bfe_check_input_dvs :: "problem \<Rightarrow> vector_double \<Rightarrow> exn option" where
  "bfe_check_input_dvs p dvs =
     (if length dvs mod prob_nx p \<noteq> 0 then
        Some (invalid_argument ''the length of the batch is not a multiple of the dimension of the problem'')
      else if \<not> prob_nx p > 0 then
        Some (invalid_argument ''the dimension of the problem is zero'')
      else if \<not> list_all (\<lambda>i. \<not> prob_integer_only p (i mod prob_nx p)
                                \<or> of_int \<lfloor>dvs ! i\<rfloor> = dvs ! i) [0..<length dvs] then
        Some (invalid_argument ''an integer-only component of a decision vector is not integral'')
      else None)"

definition bfe_check_output_fvs :: "problem \<Rightarrow> vector_double \<Rightarrow> vector_double \<Rightarrow> exn option" where
  "bfe_check_output_fvs p dvs fvs =
     (if length fvs \<noteq> (length dvs div prob_nx p) * prob_nf p then
        Some (invalid_argument ''the length of the batch of fitness vectors is wrong'')
      else None)"

text \<open>
  The call operator of \<^verbatim>\<open>bfe\<close>: input check, the driver's call operator through
  \<^verbatim>\<open>ptr()\<close>, output check. When the output check throws, \<^verbatim>\<open>retval\<close> is destroyed by the
  unwinding and the caller gets the exception only.
\<close>

definition bfe_call :: "'u bfe \<Rightarrow> problem \<Rightarrow> nat \<Rightarrow> vector_double \<Rightarrow> vector_double eff" where
  "bfe_call b p fevals dvs =
     (case bfe_check_input_dvs p dvs of
        Some e \<Rightarrow> (Inl (Throw e), fevals, [])
      | None \<Rightarrow>
          (case m_ptr b of
             None \<Rightarrow> (Inl (Abort ''assert(m_ptr.get() != nullptr)''), fevals, [])
           | Some i \<Rightarrow>
               (case inner_call i p fevals dvs of
                  (Inl x, fevals', cs) \<Rightarrow> (Inl x, fevals', cs)
                | (Inr retval, fevals', cs) \<Rightarrow>
                    (case bfe_check_output_fvs p dvs retval of
                       Some e \<Rightarrow> (Inl (Throw e), fevals', cs)
                     | None \<Rightarrow> (Inr retval, fevals', cs)))))"

text \<open>
  The three drivers of this header as \<^verbatim>\<open>bfe_inner\<close>s. The classes have no data members,
  they define \<^verbatim>\<open>get_name\<close> and neither \<^verbatim>\<open>get_extra_info\<close> nor \<^verbatim>\<open>get_thread_safety\<close>.
\<close>

definition thread_bfe_inner :: "runtime \<Rightarrow> unit bfe_inner" where
  "thread_bfe_inner rt =
     \<lparr>m_value = (), call_operator = (\<lambda>u. thread_bfe rt), copy_constructor = (\<lambda>u. u),
      typeid_name = ''pagmo::thread_bfe'',
      user_get_name = Some (\<lambda>u. ''Multi-threaded batch fitness evaluator''),
      user_get_extra_info = None, user_get_thread_safety = None\<rparr>"

definition member_bfe_inner :: "unit bfe_inner" where
  "member_bfe_inner =
     \<lparr>m_value = (), call_operator = (\<lambda>u. member_bfe), copy_constructor = (\<lambda>u. u),
      typeid_name = ''pagmo::member_bfe'',
      user_get_name = Some (\<lambda>u. ''Member function batch fitness evaluator''),
      user_get_extra_info = None, user_get_thread_safety = None\<rparr>"

definition default_bfe_inner :: "runtime \<Rightarrow> unit bfe_inner" where
  "default_bfe_inner rt =
     \<lparr>m_value = (), call_operator = (\<lambda>u. default_bfe rt), copy_constructor = (\<lambda>u. u),
      typeid_name = ''pagmo::default_bfe'',
      user_get_name = Some (\<lambda>u. ''Default batch fitness evaluator''),
      user_get_extra_info = None, user_get_thread_safety = None\<rparr>"

declare range_loop.simps [simp del]
declare drain.simps [simp del]
declare wait_loop.simps [simp del]

section \<open>Observations on results\<close>

text \<open>
  \<open>is_fitness_on who c\<close>: the call \<open>c\<close> is a fitness evaluation made on the object
  \<open>who\<close>. \<open>raises_overflow r\<close>: the outcome \<open>r\<close> is a thrown \<^verbatim>\<open>std::overflow_error\<close>;
  \<open>raises_invalid_argument r\<close>: it is a thrown \<^verbatim>\<open>std::invalid_argument\<close>.
\<close>

fun is_fitness_on :: "obj \<Rightarrow> call \<Rightarrow> bool" where
  "is_fitness_on who (fitness_call w dv) = (w = who)"
| "is_fitness_on who (batch_fitness_call w dvs) = False"
| "is_fitness_on who (increment_fevals_call w n) = False"

fun raises_overflow :: "'a eff \<Rightarrow> bool" where
  "raises_overflow (Inl (Throw (overflow_error m)), fevals, cs) = True"
| "raises_overflow (r, fevals, cs) = False"

fun raises_invalid_argument :: "'a eff \<Rightarrow> bool" where
  "raises_invalid_argument (Inl (Throw (invalid_argument m)), fevals, cs) = True"
| "raises_invalid_argument (r, fevals, cs) = False"



section \<open>Concrete platforms, problems, algorithms and drivers\<close>

text \<open>
  Two splits of a range: in one block, and index by index from the back. Two platforms:
  64-bit \<^verbatim>\<open>size_t\<close> and 32-bit \<^verbatim>\<open>size_t\<close>, both with 64-bit \<^verbatim>\<open>unsigned long long\<close>, with
  \<^verbatim>\<open>max_size()\<close> the largest \<^verbatim>\<open>ptrdiff_t\<close> divided by the size of a double, and with
  memory for 2147483648 doubles (16 GiB) on the first and 134217728 doubles (1 GiB) on
  the second.
\<close>

definition whole_range :: "nat \<Rightarrow> (nat \<times> nat) list" where
  "whole_range n = (if n = 0 then [] else [(0, n)])"

definition back_to_front :: "nat \<Rightarrow> (nat \<times> nat) list" where
  "back_to_front n = map (\<lambda>i. (i, i + 1)) (rev [0..<n])"

definition lp64 :: runtime where
  "lp64 = \<lparr>size_max = 18446744073709551615, max_size = 1152921504606846975,
           can_allocate = (\<lambda>n. n \<le> 2147483648), ullong_max = 18446744073709551615,
           tbb_split = whole_range\<rparr>"

definition ilp32 :: runtime where
  "ilp32 = \<lparr>size_max = 4294967295, max_size = 268435455,
            can_allocate = (\<lambda>n. n \<le> 134217728), ullong_max = 18446744073709551615,
            tbb_split = back_to_front\<rparr>"

text \<open>
  The problems of the spec's scenarios: \<open>squares\<close> has tier \<open>basic\<close>, no batch fitness
  and \<open>fitness(x) = [x*x]\<close>; \<open>doubles\<close> has a batch fitness that doubles every entry;
  \<open>unsafe\<close> has tier \<open>none\<close>. \<open>wide\<close> has \<open>nx = 1\<close> and \<open>nf = UINT_MAX / 2\<close> for a 32-bit
  \<^verbatim>\<open>unsigned int\<close>, that is 4294967295 div 2 = 2147483647; \<open>wide_unsafe\<close> and
  \<open>wide_basic\<close> are the same with tiers \<open>none\<close> and \<open>basic\<close>. \<open>quarter_unsafe\<close> has tier
  \<open>none\<close> and \<open>nf = SIZE_MAX / 4\<close> for a 64-bit \<^verbatim>\<open>size_t\<close>, that is 4611686018427387903.
\<close>

definition squares :: problem where
  "squares = \<lparr>prob_name = ''squares'', prob_nx = 1, prob_nf = 1, prob_thread_safety = ts_basic,
              udp_fitness = (\<lambda>dv. Inr (map (\<lambda>x. x * x) dv)), udp_batch_fitness = None,
              prob_integer_only = (\<lambda>j. False)\<rparr>"

definition doubles :: problem where
  "doubles = \<lparr>prob_name = ''doubles'', prob_nx = 1, prob_nf = 1, prob_thread_safety = ts_none,
              udp_fitness = (\<lambda>dv. Inr (map (\<lambda>x. 2 * x) dv)),
              udp_batch_fitness = Some (\<lambda>dvs. Inr (map (\<lambda>x. 2 * x) dvs)),
              prob_integer_only = (\<lambda>j. False)\<rparr>"

definition unsafe :: problem where
  "unsafe = \<lparr>prob_name = ''unsafe'', prob_nx = 1, prob_nf = 1, prob_thread_safety = ts_none,
             udp_fitness = (\<lambda>dv. Inr dv), udp_batch_fitness = None,
             prob_integer_only = (\<lambda>j. False)\<rparr>"

definition wide :: problem where
  "wide = \<lparr>prob_name = ''wide'', prob_nx = 1, prob_nf = 2147483647,
           prob_thread_safety = ts_constant,
           udp_fitness = (\<lambda>dv. Inr (replicate 2147483647 0)), udp_batch_fitness = None,
           prob_integer_only = (\<lambda>j. False)\<rparr>"

definition wide_unsafe :: problem where
  "wide_unsafe = wide\<lparr>prob_name := ''wide_unsafe'', prob_thread_safety := ts_none\<rparr>"


definition quarter_unsafe :: problem where
  "quarter_unsafe = \<lparr>prob_name = ''quarter_unsafe'', prob_nx = 1, prob_nf = 4611686018427387903,
           prob_thread_safety = ts_none,
           udp_fitness = (\<lambda>dv. Inr (replicate 4611686018427387903 0)), udp_batch_fitness = None,
           prob_integer_only = (\<lambda>j. False)\<rparr>"

text \<open>
  An algorithm that returns the population it is given, one whose \<^verbatim>\<open>evolve\<close> throws, and
  one of tier \<open>copyonly\<close>; a population of \<open>squares\<close> and one of \<open>unsafe\<close>.
\<close>

definition steady :: algorithm where
  "steady = \<lparr>algo_name = ''steady'', algo_thread_safety = ts_basic, algo_evolve = (\<lambda>pop. Inr pop)\<rparr>"

definition faulty :: algorithm where
  "faulty = \<lparr>algo_name = ''faulty'', algo_thread_safety = ts_constant,
             algo_evolve = (\<lambda>pop. Inl (other_error ''evolve failed''))\<rparr>"

definition fragile :: algorithm where
  "fragile = \<lparr>algo_name = ''fragile'', algo_thread_safety = ts_copyonly,
              algo_evolve = (\<lambda>pop. Inr pop)\<rparr>"

definition pop_squares :: population where
  "pop_squares = \<lparr>get_problem = squares, individuals = [([2], [4])]\<rparr>"

definition pop_unsafe :: population where
  "pop_unsafe = \<lparr>get_problem = unsafe, individuals = []\<rparr>"

definition held :: "algorithm \<Rightarrow> population \<Rightarrow> evolve_refs" where
  "held a p = \<lparr>algo = a, algo_lock = True, pop = p, pop_lock = True, steps = []\<rparr>"

text \<open>
  A user driver that returns one number too many, and a container whose driver has been
  renamed through \<^verbatim>\<open>extract\<close> after construction, so that the driver no longer reports
  the name and tier that the container cached.
\<close>

definition too_long_inner :: "unit bfe_inner" where
  "too_long_inner =
     \<lparr>m_value = (), call_operator = (\<lambda>u p fevals dvs. (Inr (0 # dvs), fevals, [])),
      copy_constructor = (\<lambda>u. u), typeid_name = ''too_long'',
      user_get_name = None, user_get_extra_info = None, user_get_thread_safety = None\<rparr>"

definition named_inner :: "(string \<times> thread_safety) bfe_inner" where
  "named_inner =
     \<lparr>m_value = (''first'', ts_constant),
      call_operator = (\<lambda>u p fevals dvs. (Inr [], fevals, [])),
      copy_constructor = (\<lambda>u. u), typeid_name = ''named'',
      user_get_name = Some fst, user_get_extra_info = None,
      user_get_thread_safety = Some snd\<rparr>"

definition renamed_bfe :: "(string \<times> thread_safety) bfe" where
  "renamed_bfe = (bfe_ctor named_inner)\<lparr>m_ptr := Some (named_inner\<lparr>m_value := (''second'', ts_none)\<rparr>)\<rparr>"

definition island0 :: island_data where
  "island0 = \<lparr>futures = [shared_state None, shared_state (Some (other_error ''T2'')),
                          shared_state (Some (other_error ''T3'')), shared_state None],
              queue = []\<rparr>"

section \<open>Facts about messages\<close>

lemma sublist_appendL: "sublist x a \<Longrightarrow> sublist x (a @ b)"
  unfolding sublist_def by (metis append.assoc)

lemma sublist_appendR: "sublist x b \<Longrightarrow> sublist x (a @ b)"
  unfolding sublist_def by (metis append.assoc)

section \<open>\<^verbatim>\<open>thread_island::run_evolve\<close>\<close>

lemma check_thread_safety_None:
  "ts_int ts_basic \<le> ts_int ts \<Longrightarrow> check_thread_safety name ts = None"
  by (simp add: check_thread_safety_def)

lemma check_thread_safety_Some:
  assumes "ts_int ts < ts_int ts_basic"
  shows "\<exists>msg. check_thread_safety name ts = Some (invalid_argument msg) \<and> sublist name msg
      \<and> sublist (if ts = ts_copyonly then ''copyonly'' else ''none'') msg"
proof -
  let ?msg = "''thread islands require objects which provide at least the basic thread safety level, but the object ''
            @ sq @ name @ sq @ '' provides only the '' @ sq
            @ (if ts = ts_copyonly then ''copyonly'' else ''none'')
            @ sq @ '' thread safety guarantee''"
  have 1: "check_thread_safety name ts = Some (invalid_argument ?msg)"
    using assms unfolding check_thread_safety_def by (simp only: if_True)
  have 2: "sublist name ?msg"
    by (rule sublist_appendR, rule sublist_appendR, rule sublist_append_rightI)
  have 3: "sublist (if ts = ts_copyonly then ''copyonly'' else ''none'') ?msg"
    by (rule sublist_appendR, rule sublist_appendR, rule sublist_appendR, rule sublist_appendR,
        rule sublist_appendR, rule sublist_appendR, rule sublist_append_rightI)
  from 1 2 3 show ?thesis by blast
qed

lemma run_evolve_algo_too_weak:
  assumes "ts_int (algo_thread_safety (algo s)) < ts_int ts_basic"
  shows "\<exists>msg. run_evolve s = (Inl (Throw (invalid_argument msg)), s)
           \<and> sublist (algo_name (algo s)) msg"
proof -
  from check_thread_safety_Some [OF assms, of "algo_name (algo s)"]
  obtain msg where c: "check_thread_safety (algo_name (algo s)) (algo_thread_safety (algo s))
                      = Some (invalid_argument msg)"
    and n: "sublist (algo_name (algo s)) msg"
    by blast
  from c have "run_evolve s = (Inl (Throw (invalid_argument msg)), s)"
    by (simp add: run_evolve_def then_do_def check_algo_def)
  with n show ?thesis by blast
qed

lemma run_evolve_prob_too_weak:
  assumes "ts_int ts_basic \<le> ts_int (algo_thread_safety (algo s))"
      and "ts_int (prob_thread_safety (get_problem (pop s))) < ts_int ts_basic"
  shows "\<exists>msg. run_evolve s = (Inl (Throw (invalid_argument msg)), s)
           \<and> sublist (prob_name (get_problem (pop s))) msg"
proof -
  from assms(1)
  have a: "check_thread_safety (algo_name (algo s)) (algo_thread_safety (algo s)) = None"
    by (rule check_thread_safety_None)
  from check_thread_safety_Some [OF assms(2), of "prob_name (get_problem (pop s))"]
  obtain msg where c: "check_thread_safety (prob_name (get_problem (pop s)))
                      (prob_thread_safety (get_problem (pop s))) = Some (invalid_argument msg)"
    and n: "sublist (prob_name (get_problem (pop s))) msg"
    by blast
  from a c have "run_evolve s = (Inl (Throw (invalid_argument msg)), s)"
    by (simp add: run_evolve_def then_do_def check_algo_def check_prob_def)
  with n show ?thesis by blast
qed

lemma run_evolve_checks_passed:
  assumes "ts_int ts_basic \<le> ts_int (algo_thread_safety (algo s))"
      and "ts_int ts_basic \<le> ts_int (prob_thread_safety (get_problem (pop s)))"
      and "algo_lock s" and "pop_lock s"
  shows "run_evolve s =
     (case algo_evolve (algo s) (pop s) of
        Inr new_pop \<Rightarrow>
          (Inr (), s\<lparr>algo_lock := False, pop := new_pop,
                     steps := steps s @ [CopyAlgo, UnlockAlgo, CopyPop, UnlockPop, Evolve,
                                         LockPop, AssignPop]\<rparr>)
      | Inl e \<Rightarrow>
          (Inl (Throw e), s\<lparr>algo_lock := False, pop_lock := False,
                     steps := steps s @ [CopyAlgo, UnlockAlgo, CopyPop, UnlockPop, Evolve]\<rparr>))"
  using assms
  by (simp add: run_evolve_def then_do_def check_algo_def check_prob_def check_thread_safety_None
        copy_algo_def copy_pop_def unlock_algo_def unlock_pop_def lock_pop_def call_evolve_def
        assign_pop_def log_step_def split: sum.splits)

text \<open>
  Claim C3. When the tiers of the algorithm and of the population's problem are both at
  least \<open>basic\<close> (and the two locks arrive locked, as the interface requires),
  \<^verbatim>\<open>run_evolve\<close> performs exactly: copy the algorithm, release \<^verbatim>\<open>algo_lock\<close>, copy the
  population, release \<^verbatim>\<open>pop_lock\<close>, call \<^verbatim>\<open>evolve\<close> on the copies, re-acquire \<^verbatim>\<open>pop_lock\<close>,
  assign the new population; the algorithm lock stays released and the population lock
  is held at the end. (If \<^verbatim>\<open>evolve\<close> itself throws, the run ends there with the exception,
  both locks released and the population as it was.) When a tier is below \<open>basic\<close> the
  call raises \<^verbatim>\<open>invalid_argument\<close> with a message that contains the name of the object that
  failed the check: the algorithm's if its tier is too low, else the problem's.
\<close>

theorem run_evolve_procedure:
  "(ts_int ts_basic \<le> ts_int (algo_thread_safety (algo s))
      \<and> ts_int ts_basic \<le> ts_int (prob_thread_safety (get_problem (pop s)))
      \<and> algo_lock s \<and> pop_lock s \<longrightarrow>
      run_evolve s =
        (case algo_evolve (algo s) (pop s) of
           Inr new_pop \<Rightarrow>
             (Inr (), s\<lparr>algo_lock := False, pop := new_pop,
                        steps := steps s @ [CopyAlgo, UnlockAlgo, CopyPop, UnlockPop, Evolve,
                                            LockPop, AssignPop]\<rparr>)
         | Inl e \<Rightarrow>
             (Inl (Throw e), s\<lparr>algo_lock := False, pop_lock := False,
                        steps := steps s @ [CopyAlgo, UnlockAlgo, CopyPop, UnlockPop, Evolve]\<rparr>)))
   \<and> (ts_int (algo_thread_safety (algo s)) < ts_int ts_basic \<longrightarrow>
        (\<exists>msg. fst (run_evolve s) = Inl (Throw (invalid_argument msg))
           \<and> sublist (algo_name (algo s)) msg))
   \<and> (ts_int ts_basic \<le> ts_int (algo_thread_safety (algo s))
        \<and> ts_int (prob_thread_safety (get_problem (pop s))) < ts_int ts_basic \<longrightarrow>
        (\<exists>msg. fst (run_evolve s) = Inl (Throw (invalid_argument msg))
           \<and> sublist (prob_name (get_problem (pop s))) msg))"
proof (intro conjI impI)
  assume "ts_int ts_basic \<le> ts_int (algo_thread_safety (algo s))
      \<and> ts_int ts_basic \<le> ts_int (prob_thread_safety (get_problem (pop s)))
      \<and> algo_lock s \<and> pop_lock s"
  then show "run_evolve s =
        (case algo_evolve (algo s) (pop s) of
           Inr new_pop \<Rightarrow>
             (Inr (), s\<lparr>algo_lock := False, pop := new_pop,
                        steps := steps s @ [CopyAlgo, UnlockAlgo, CopyPop, UnlockPop, Evolve,
                                            LockPop, AssignPop]\<rparr>)
         | Inl e \<Rightarrow>
             (Inl (Throw e), s\<lparr>algo_lock := False, pop_lock := False,
                        steps := steps s @ [CopyAlgo, UnlockAlgo, CopyPop, UnlockPop, Evolve]\<rparr>))"
    by (intro run_evolve_checks_passed) simp_all
next
  assume "ts_int (algo_thread_safety (algo s)) < ts_int ts_basic"
  from run_evolve_algo_too_weak [OF this]
  show "\<exists>msg. fst (run_evolve s) = Inl (Throw (invalid_argument msg))
           \<and> sublist (algo_name (algo s)) msg"
    by auto
next
  assume "ts_int ts_basic \<le> ts_int (algo_thread_safety (algo s))
        \<and> ts_int (prob_thread_safety (get_problem (pop s))) < ts_int ts_basic"
  then have "\<exists>msg. run_evolve s = (Inl (Throw (invalid_argument msg)), s)
           \<and> sublist (prob_name (get_problem (pop s))) msg"
    by (intro run_evolve_prob_too_weak) simp_all
  then show "\<exists>msg. fst (run_evolve s) = Inl (Throw (invalid_argument msg))
           \<and> sublist (prob_name (get_problem (pop s))) msg"
    by auto
qed

theorem run_evolve_procedure_witness:
  "run_evolve (held steady pop_squares) =
     (Inr (), \<lparr>algo = steady, algo_lock = False, pop = pop_squares, pop_lock = True,
               steps = [CopyAlgo, UnlockAlgo, CopyPop, UnlockPop, Evolve, LockPop, AssignPop]\<rparr>)
   \<and> run_evolve (held faulty pop_squares) =
     (Inl (Throw (other_error ''evolve failed'')),
      \<lparr>algo = faulty, algo_lock = False, pop = pop_squares, pop_lock = False,
       steps = [CopyAlgo, UnlockAlgo, CopyPop, UnlockPop, Evolve]\<rparr>)
   \<and> (\<exists>msg. fst (run_evolve (held fragile pop_unsafe)) = Inl (Throw (invalid_argument msg))
         \<and> sublist ''fragile'' msg)
   \<and> (\<exists>msg. fst (run_evolve (held steady pop_unsafe)) = Inl (Throw (invalid_argument msg))
         \<and> sublist ''unsafe'' msg)"
  using run_evolve_procedure [of "held steady pop_squares"]
        run_evolve_procedure [of "held faulty pop_squares"]
        run_evolve_procedure [of "held fragile pop_unsafe"]
        run_evolve_procedure [of "held steady pop_unsafe"]
  by (simp add: held_def steady_def faulty_def fragile_def pop_squares_def pop_unsafe_def
        squares_def unsafe_def)

text \<open>
  Claim C10. When the algorithm's tier or the problem's tier is below \<open>basic\<close>,
  \<^verbatim>\<open>run_evolve\<close> raises \<^verbatim>\<open>invalid_argument\<close> and the four references are exactly as they
  were on entry: no step was performed (no copy, no \<^verbatim>\<open>unlock\<close>), the algorithm and the
  population are unchanged, and each lock is in the state in which the caller passed it,
  so locks that came in held are still held.
\<close>

theorem run_evolve_rejects_before_any_effect:
  assumes "ts_int (algo_thread_safety (algo s)) < ts_int ts_basic
           \<or> ts_int (prob_thread_safety (get_problem (pop s))) < ts_int ts_basic"
  shows "\<exists>msg. run_evolve s = (Inl (Throw (invalid_argument msg)), s)"
proof (cases "ts_int (algo_thread_safety (algo s)) < ts_int ts_basic")
  case True
  from run_evolve_algo_too_weak [OF True] show ?thesis by blast
next
  case False
  with assms have "ts_int (prob_thread_safety (get_problem (pop s))) < ts_int ts_basic"
    by simp
  moreover from False have "ts_int ts_basic \<le> ts_int (algo_thread_safety (algo s))"
    by simp
  ultimately show ?thesis
    using run_evolve_prob_too_weak [of s] by blast
qed

theorem run_evolve_rejects_before_any_effect_witness:
  "(\<exists>msg. run_evolve (held fragile pop_squares)
            = (Inl (Throw (invalid_argument msg)), held fragile pop_squares))
   \<and> (\<exists>msg. run_evolve (held steady pop_unsafe)
            = (Inl (Throw (invalid_argument msg)), held steady pop_unsafe))
   \<and> algo_lock (held steady pop_unsafe) \<and> pop_lock (held steady pop_unsafe)
   \<and> steps (held steady pop_unsafe) = []"
  using run_evolve_rejects_before_any_effect [of "held fragile pop_squares"]
        run_evolve_rejects_before_any_effect [of "held steady pop_unsafe"]
  by (simp add: held_def steady_def fragile_def pop_squares_def pop_unsafe_def
        squares_def unsafe_def)

section \<open>\<^verbatim>\<open>island::evolve\<close> and \<^verbatim>\<open>island::wait\<close>\<close>

text \<open>
  Claim C5. \<^verbatim>\<open>evolve()\<close> takes \<^verbatim>\<open>futures_mutex\<close>, appends a placeholder future, and then
  submits the closure. If the submission throws, the placeholder is popped before the
  exception leaves and the data block is exactly what it was before the call. If the
  submission succeeds, the placeholder is replaced by the returned future and the task is
  in the queue.
\<close>

theorem evolve_failure_leaves_state:
  "(\<forall>e. outcome = Inl e \<longrightarrow>
      evolve outcome d =
        (Inl e, d, [lock_futures_mutex, emplace_back, enqueue_call, pop_back, unlock_futures_mutex]))
   \<and> (\<forall>f. outcome = Inr f \<longrightarrow>
      evolve outcome d =
        (Inr (), d\<lparr>futures := futures d @ [f], queue := queue d @ [evolve_task]\<rparr>,
         [lock_futures_mutex, emplace_back, enqueue_call, assign_back, unlock_futures_mutex]))"
  by (simp add: evolve_def enqueue_def Let_def)

theorem evolve_failure_leaves_state_witness:
  "evolve (Inl (system_error ''enqueue'')) island0 =
     (Inl (system_error ''enqueue''), island0,
      [lock_futures_mutex, emplace_back, enqueue_call, pop_back, unlock_futures_mutex])
   \<and> evolve (Inr (shared_state None)) island0 =
     (Inr (), island0\<lparr>futures := futures island0 @ [shared_state None], queue := [evolve_task]\<rparr>,
      [lock_futures_mutex, emplace_back, enqueue_call, assign_back, unlock_futures_mutex])"
  using evolve_failure_leaves_state [of "Inl (system_error ''enqueue'')" island0]
        evolve_failure_leaves_state [of "Inr (shared_state None)" island0]
  by (simp add: island0_def)

lemma future_get_shared:
  "future_get (shared_state None) = (Inr (), no_state)"
  "future_get (shared_state (Some e)) = (Inl (Throw e), no_state)"
  by (simp_all add: future_get_def)

lemma valid_shared: "valid f \<longleftrightarrow> (\<exists>r. f = shared_state r)"
  by (cases f) (simp_all add: valid_def)

lemma drain_valid:
  "(\<And>j. i \<le> j \<Longrightarrow> j < length fs \<Longrightarrow> valid (fs ! j)) \<Longrightarrow>
   \<exists>fs'. drain fs i = (None, fs', map get [i..<length fs])"
proof (induction "length fs - i" arbitrary: fs i)
  case 0
  then have "\<not> i < length fs" by simp
  then show ?case by (simp add: drain.simps)
next
  case (Suc n)
  then have lt: "i < length fs" by simp
  with Suc.prems obtain r where f: "fs ! i = shared_state r"
    by (auto simp: valid_shared)
  have "\<exists>fs'. drain (fs[i := no_state]) (i + 1)
            = (None, fs', map get [i + 1..<length (fs[i := no_state])])"
  proof (rule Suc.hyps(1))
    show "n = length (fs[i := no_state]) - (i + 1)" using Suc.hyps(2) by simp
  next
    fix j assume "i + 1 \<le> j" "j < length (fs[i := no_state])"
    then show "valid (fs[i := no_state] ! j)" using Suc.prems by simp
  qed
  then obtain fs' where d: "drain (fs[i := no_state]) (i + 1) = (None, fs', map get [i + 1..<length fs])"
    by auto
  have "drain fs i = (None, fs', get i # map get [i + 1..<length fs])"
    using lt f d by (cases r) (simp_all add: drain.simps [of fs i] future_get_shared)
  moreover have "[i..<length fs] = i # [i + 1..<length fs]"
    using lt by (simp add: upt_conv_Cons)
  ultimately show ?case by simp
qed

lemma first_error_not_abort: "first_error fs \<noteq> Inl (Abort a)"
  by (induction fs rule: first_error.induct) simp_all

lemma wait_loop_valid:
  "(\<And>j. i \<le> j \<Longrightarrow> j < length fs \<Longrightarrow> valid (fs ! j)) \<Longrightarrow>
   wait_loop fs i = (first_error (drop i fs), [], map get [i..<length fs] @ [clear])"
proof (induction "length fs - i" arbitrary: fs i)
  case 0
  then have "\<not> i < length fs" by simp
  then show ?case by (simp add: wait_loop.simps)
next
  case (Suc n)
  then have lt: "i < length fs" by simp
  with Suc.prems obtain r where f: "fs ! i = shared_state r"
    by (auto simp: valid_shared)
  have v: "valid (fs ! i)" using lt Suc.prems by simp
  have rest: "\<And>j. i + 1 \<le> j \<Longrightarrow> j < length (fs[i := no_state]) \<Longrightarrow> valid (fs[i := no_state] ! j)"
    using Suc.prems by simp
  have upt: "[i..<length fs] = i # [i + 1..<length fs]"
    using lt by (simp add: upt_conv_Cons)
  have dr: "drop i fs = shared_state r # drop (i + 1) fs"
    using lt f by (simp add: Cons_nth_drop_Suc [symmetric])
  show ?case
  proof (cases r)
    case None
    have "wait_loop (fs[i := no_state]) (i + 1)
            = (first_error (drop (i + 1) (fs[i := no_state])), [],
               map get [i + 1..<length (fs[i := no_state])] @ [clear])"
    proof (rule Suc.hyps(1))
      show "n = length (fs[i := no_state]) - (i + 1)" using Suc.hyps(2) by simp
    qed (rule rest)
    then have "wait_loop (fs[i := no_state]) (i + 1)
            = (first_error (drop (i + 1) fs), [], map get [i + 1..<length fs] @ [clear])"
      by simp
    then show ?thesis
      using lt f v None upt dr by (simp add: wait_loop.simps [of fs i] future_get_shared)
  next
    case (Some e)
    from drain_valid [of "i + 1" "fs[i := no_state]"] rest
    obtain fs' where "drain (fs[i := no_state]) (i + 1) = (None, fs', map get [i + 1..<length fs])"
      by auto
    then show ?thesis
      using lt f v Some upt dr by (simp add: wait_loop.simps [of fs i] future_get_shared)
  qed
qed

text \<open>
  Claim C4. With every pending future valid (the invariant that \<^verbatim>\<open>wait()\<close> asserts),
  \<^verbatim>\<open>wait()\<close> calls \<^verbatim>\<open>get()\<close> on every pending future, once each, in submission order,
  whether or not one of them fails; it clears the list; it rethrows the first stored error
  in submission order, or returns normally when there is none. A second \<^verbatim>\<open>wait()\<close> right
  after finds the list empty, calls no \<^verbatim>\<open>get()\<close>, changes nothing and returns normally.
\<close>

theorem wait_drains_clears_rethrows_first:
  assumes "list_all valid (futures d)"
  shows "wait d = (first_error (futures d), d\<lparr>futures := []\<rparr>,
                   lock_futures_mutex # map get [0..<length (futures d)]
                     @ [clear, unlock_futures_mutex])
         \<and> wait (d\<lparr>futures := []\<rparr>) = (Inr (), d\<lparr>futures := []\<rparr>,
                   [lock_futures_mutex, clear, unlock_futures_mutex])"
proof -
  have "\<And>j. j < length (futures d) \<Longrightarrow> valid (futures d ! j)"
    using assms by (simp add: list_all_length)
  then have "wait_loop (futures d) 0
               = (first_error (futures d), [], map get [0..<length (futures d)] @ [clear])"
    using wait_loop_valid [of 0 "futures d"] by simp
  moreover have "wait_loop [] 0 = (Inr (), [], [clear])"
    by (simp add: wait_loop.simps)
  ultimately show ?thesis
    using first_error_not_abort [of "futures d"]
    by (auto simp: wait_def split: sum.splits failure.splits)
qed

theorem wait_drains_clears_rethrows_first_witness:
  "list_all valid (futures island0)
   \<and> wait island0 = (Inl (Throw (other_error ''T2'')), island0\<lparr>futures := []\<rparr>,
                      [lock_futures_mutex, get 0, get 1, get 2, get 3, clear, unlock_futures_mutex])
   \<and> wait (island0\<lparr>futures := []\<rparr>) = (Inr (), island0\<lparr>futures := []\<rparr>,
                      [lock_futures_mutex, clear, unlock_futures_mutex])"
proof -
  have v: "list_all valid (futures island0)"
    by (simp add: island0_def valid_def)
  have "[0..<length (futures island0)] = [0, 1, 2, 3]"
    by (simp add: island0_def upt_rec)
  moreover have "first_error (futures island0) = Inl (Throw (other_error ''T2''))"
    by (simp add: island0_def)
  ultimately show ?thesis
    using wait_drains_clears_rethrows_first [OF v] v by simp
qed

section \<open>\<^verbatim>\<open>thread_bfe\<close>: the loop and the parallel region\<close>

lemma fitness_result:
  assumes "fitness prob who fevals dv = (r, fevals', cs)"
  shows "cs = [fitness_call who dv]"
    and "\<And>x. r = Inl x \<Longrightarrow> fevals' = fevals \<and> (\<exists>e. x = Throw e \<and>
            (udp_fitness prob dv = Inl e \<or> e = invalid_argument ''fitness vector of the wrong length''))"
    and "\<And>fv. r = Inr fv \<Longrightarrow> fevals' = fevals + 1 \<and> length fv = prob_nf prob
            \<and> udp_fitness prob dv = Inr fv"
  using assms by (auto simp: fitness_def split: sum.splits if_splits)

lemma range_loop_stop:
  "\<not> begin < end' \<Longrightarrow> range_loop dvs n_dim f_dim prob who begin end' fevals retval = (Inr retval, fevals, [])"
  by (simp add: range_loop.simps)

lemma range_loop_step:
  "begin < end' \<Longrightarrow>
   range_loop dvs n_dim f_dim prob who begin end' fevals retval =
     (case fitness prob who fevals (take n_dim (drop (begin * n_dim) dvs)) of
           (Inl x, fevals', cs) \<Rightarrow> (Inl x, fevals', cs)
         | (Inr fv, fevals', cs) \<Rightarrow>
             if length fv \<noteq> f_dim then (Inl (Abort ''assert(fv.size() == f_dim)''), fevals', cs)
             else
               (case range_loop dvs n_dim f_dim prob who (begin + 1) end' fevals'
                       (take (begin * f_dim) retval @ fv @ drop (begin * f_dim + f_dim) retval) of
                  (r, fevals'', cs') \<Rightarrow> (r, fevals'', cs @ cs')))"
  by (subst range_loop.simps) (simp add: Let_def)


lemma range_loop_throws:
  "range_loop dvs n_dim f_dim prob who b e fevals rv = (Inl (Throw x), fevals', cs)
   \<Longrightarrow> (\<exists>dv. udp_fitness prob dv = Inl x) \<or> x = invalid_argument ''fitness vector of the wrong length''"
proof (induction "e - b" arbitrary: b fevals rv fevals' cs)
  case 0
  then show ?case by (simp add: range_loop_stop)
next
  case (Suc n)
  then have lt: "b < e" by simp
  obtain r1 f1 c1 where fit: "fitness prob who fevals (take n_dim (drop (b * n_dim) dvs)) = (r1, f1, c1)"
    by (cases "fitness prob who fevals (take n_dim (drop (b * n_dim) dvs))") auto
  show ?case
  proof (cases r1)
    case (Inl y)
    with Suc.prems lt fit have "y = Throw x" by (simp add: range_loop_step)
    with fitness_result(2) [OF fit Inl] show ?thesis by auto
  next
    case (Inr fv)
    show ?thesis
    proof (cases "length fv = f_dim")
      case False
      with Suc.prems lt fit Inr show ?thesis by (auto simp: range_loop_step)
    next
      case True
      obtain r2 f2 c2 where rec: "range_loop dvs n_dim f_dim prob who (b + 1) e f1
                   (take (b * f_dim) rv @ fv @ drop (b * f_dim + f_dim) rv) = (r2, f2, c2)"
        by (cases "range_loop dvs n_dim f_dim prob who (b + 1) e f1
                   (take (b * f_dim) rv @ fv @ drop (b * f_dim + f_dim) rv)") auto
      with Suc.prems lt fit Inr True have "r2 = Inl (Throw x)" by (simp add: range_loop_step)
      with rec have rec': "range_loop dvs n_dim f_dim prob who (b + 1) e f1
                   (take (b * f_dim) rv @ fv @ drop (b * f_dim + f_dim) rv) = (Inl (Throw x), f2, c2)"
        by simp
      have "n = e - (b + 1)" using Suc.hyps(2) by simp
      from Suc.hyps(1) [OF this rec'] show ?thesis .
    qed
  qed
qed


lemma allocate_throws:
  "allocate rt n = Some x \<Longrightarrow> x = length_error ''cannot create std::vector larger than max_size()'' \<or> x = bad_alloc"
  by (auto simp: allocate_def split: if_splits)


lemma range_evaluator_throws:
  "range_evaluator rt dvs n_dim f_dim n_dvs prob who b e fevals rv = (Inl (Throw x), fevals', cs)
   \<Longrightarrow> (\<exists>dv. udp_fitness prob dv = Inl x) \<or> x = invalid_argument ''fitness vector of the wrong length''
       \<or> x = length_error ''cannot create std::vector larger than max_size()'' \<or> x = bad_alloc"
  by (auto simp: range_evaluator_def split: if_splits option.splits
           dest: range_loop_throws allocate_throws)




lemma parallel_for_throws:
  assumes "\<And>rng fv rv fv' cs. body rng fv rv = (Inl (Throw x), fv', cs) \<Longrightarrow> R"
  shows "parallel_for blocks body fevals rv = (Inl (Throw x), fevals', cs) \<Longrightarrow> R"
proof (induction blocks arbitrary: fevals rv fevals' cs)
  case Nil
  then show ?case by simp
next
  case (Cons rng rngs)
  obtain r1 f1 c1 where b: "body rng fevals rv = (r1, f1, c1)"
    by (cases "body rng fevals rv") auto
  show ?case
  proof (cases r1)
    case (Inl y)
    with Cons.prems b have "body rng fevals rv = (Inl (Throw x), f1, c1)" by simp
    from assms [OF this] show ?thesis .
  next
    case (Inr rv')
    obtain r2 f2 c2 where rec: "parallel_for rngs body f1 rv' = (r2, f2, c2)"
      by (cases "parallel_for rngs body f1 rv'") auto
    with Cons.prems b Inr have "r2 = Inl (Throw x)" by simp
    with rec Cons.IH show ?thesis by simp
  qed
qed





lemma body_by_copy_throws:
  "body_by_copy rt dvs n_dim f_dim n_dvs p rng fv rv = (Inl (Throw x), fv', cs)
   \<Longrightarrow> (\<exists>dv. udp_fitness p dv = Inl x) \<or> x = invalid_argument ''fitness vector of the wrong length''
       \<or> x = length_error ''cannot create std::vector larger than max_size()'' \<or> x = bad_alloc"
  by (auto simp: body_by_copy_def split: prod.splits dest: range_evaluator_throws)

lemma body_by_reference_throws:
  "body_by_reference rt dvs n_dim f_dim n_dvs p rng fv rv = (Inl (Throw x), fv', cs)
   \<Longrightarrow> (\<exists>dv. udp_fitness p dv = Inl x) \<or> x = invalid_argument ''fitness vector of the wrong length''
       \<or> x = length_error ''cannot create std::vector larger than max_size()'' \<or> x = bad_alloc"
  by (auto simp: body_by_reference_def dest: range_evaluator_throws)

lemma is_fitness_on_copy_not_problem:
  "list_all (is_fitness_on a_copy) cs \<Longrightarrow> list_all (\<lambda>c. \<not> is_fitness_on the_problem c) cs"
proof (induction cs)
  case Nil
  then show ?case by simp
next
  case (Cons c cs)
  then show ?case by (cases c) auto
qed


lemma raises_overflow_iff:
  "raises_overflow x \<longleftrightarrow> (\<exists>m fv cs. x = (Inl (Throw (overflow_error m)), fv, cs))"
  by (cases x rule: raises_overflow.cases) auto

lemma thread_bfe_checked:
  assumes "prob_nx p > 0" and "prob_nf p > 0" and "length dvs mod prob_nx p = 0"
  shows "thread_bfe rt p fevals dvs =
     (if length dvs div prob_nx p > size_max rt div prob_nf p then
        (Inl (Throw (overflow_error
             ''Overflow detected in the computation of the size of the output of a thread_bfe'')),
           fevals, [])
      else
        (case allocate rt (length dvs div prob_nx p * prob_nf p) of
           Some e \<Rightarrow> (Inl (Throw e), fevals, [])
         | None \<Rightarrow>
      if ts_int (prob_thread_safety p) \<ge> ts_int ts_constant then
        parallel_for (tbb_split rt (length dvs div prob_nx p))
          (body_by_reference rt dvs (prob_nx p) (prob_nf p) (length dvs div prob_nx p) p) fevals
          (replicate (length dvs div prob_nx p * prob_nf p) 0)
      else if prob_thread_safety p = ts_basic then
        (case parallel_for (tbb_split rt (length dvs div prob_nx p))
                (body_by_copy rt dvs (prob_nx p) (prob_nf p) (length dvs div prob_nx p) p) fevals
                (replicate (length dvs div prob_nx p * prob_nf p) 0) of
           (Inl x, fevals', cs) \<Rightarrow> (Inl x, fevals', cs)
         | (Inr retval', fevals', cs) \<Rightarrow>
             (case numeric_cast_ull rt (length dvs div prob_nx p) of
                Inl e \<Rightarrow> (Inl (Throw e), fevals', cs)
              | Inr n \<Rightarrow> (Inr retval', fevals' + n, cs @ [increment_fevals_call the_problem n])))
      else
        (Inl (Throw (invalid_argument
               (''Cannot use a thread_bfe on the problem '' @ sq @ prob_name p @ sq
                @ '', which does not provide the required level of thread safety''))),
         fevals, [])))"
  using assms
  by (auto simp: thread_bfe_def Let_def increment_fevals_def split: prod.splits sum.splits option.splits)




lemma thread_bfe_squares:
  "thread_bfe lp64 squares 7 [1, 2, 3] =
     (Inr [1, 4, 9], 10,
      [fitness_call a_copy [1], fitness_call a_copy [2], fitness_call a_copy [3],
       increment_fevals_call the_problem 3])"
  by (simp add: thread_bfe_def Let_def lp64_def squares_def whole_range_def body_by_copy_def
        range_evaluator_def allocate_def range_loop_step range_loop_stop fitness_def
        numeric_cast_ull_def increment_fevals_def numeral_3_eq_3)





lemma thread_bfe_message:
  "sublist (prob_name p)
     (''Cannot use a thread_bfe on the problem '' @ sq @ prob_name p @ sq
                @ '', which does not provide the required level of thread safety'')"
  "sublist ''thread safety''
     (''Cannot use a thread_bfe on the problem '' @ sq @ prob_name p @ sq
                @ '', which does not provide the required level of thread safety'')"
proof -
  show "sublist (prob_name p)
     (''Cannot use a thread_bfe on the problem '' @ sq @ prob_name p @ sq
                @ '', which does not provide the required level of thread safety'')"
    by (rule sublist_appendR, rule sublist_appendR, rule sublist_append_rightI)
  have "'', which does not provide the required level of thread safety''
          = '', which does not provide the required level of '' @ ''thread safety''"
    by simp
  then have "sublist ''thread safety'' '', which does not provide the required level of thread safety''"
    by (simp only: sublist_append_leftI)
  then show "sublist ''thread safety''
     (''Cannot use a thread_bfe on the problem '' @ sq @ prob_name p @ sq
                @ '', which does not provide the required level of thread safety'')"
    by (intro sublist_appendR)
qed

text \<open>
  Claim C7, amended. Three things come before the tier check: the assertion on the
  length of the batch, the overflow guard, and the allocation of the output buffer of
  \<open>k * nf\<close> doubles. For a problem of tier below \<open>basic\<close> (\<open>nx\<close> and \<open>nf\<close> positive) and a
  batch whose length is a multiple of \<open>nx\<close>, with \<open>k = len(dvs)/nx\<close>: the call of
  \<^verbatim>\<open>thread_bfe\<close> always ends in an exception, with no call made on the problem (the list of
  calls is empty) and its counter unchanged. The exception is
  \<^item> \<^verbatim>\<open>overflow_error\<close> when \<open>k\<close> exceeds \<open>size_max / nf\<close>;
  \<^item> else \<^verbatim>\<open>length_error\<close> when \<open>k * nf\<close> exceeds \<^verbatim>\<open>max_size()\<close>;
  \<^item> else \<^verbatim>\<open>bad_alloc\<close> when the memory for the buffer is not there;
  \<^item> else \<^verbatim>\<open>invalid_argument\<close> with a message that contains the problem's name and the
    words "thread safety".
\<close>

theorem thread_bfe_tier_gate:
  assumes "ts_int (prob_thread_safety p) < ts_int ts_basic"
      and "prob_nx p > 0" and "prob_nf p > 0" and "length dvs mod prob_nx p = 0"
  shows "(\<exists>x. thread_bfe rt p fevals dvs = (Inl (Throw x), fevals, []))
       \<and> (size_max rt div prob_nf p < length dvs div prob_nx p \<longrightarrow>
            (\<exists>msg. thread_bfe rt p fevals dvs = (Inl (Throw (overflow_error msg)), fevals, [])))
       \<and> (length dvs div prob_nx p \<le> size_max rt div prob_nf p
            \<and> max_size rt < length dvs div prob_nx p * prob_nf p \<longrightarrow>
            (\<exists>msg. thread_bfe rt p fevals dvs = (Inl (Throw (length_error msg)), fevals, [])))
       \<and> (length dvs div prob_nx p \<le> size_max rt div prob_nf p
            \<and> length dvs div prob_nx p * prob_nf p \<le> max_size rt
            \<and> \<not> can_allocate rt (length dvs div prob_nx p * prob_nf p) \<longrightarrow>
            thread_bfe rt p fevals dvs = (Inl (Throw bad_alloc), fevals, []))
       \<and> (length dvs div prob_nx p \<le> size_max rt div prob_nf p
            \<and> length dvs div prob_nx p * prob_nf p \<le> max_size rt
            \<and> can_allocate rt (length dvs div prob_nx p * prob_nf p) \<longrightarrow>
            (\<exists>msg. thread_bfe rt p fevals dvs = (Inl (Throw (invalid_argument msg)), fevals, [])
               \<and> sublist (prob_name p) msg \<and> sublist ''thread safety'' msg))"
proof -
  from assms(1) have t: "\<not> ts_int ts_constant \<le> ts_int (prob_thread_safety p)"
      "prob_thread_safety p \<noteq> ts_basic"
    by (cases "prob_thread_safety p"; simp)+
  show ?thesis
    using thread_bfe_message [of p] t
    by (simp add: thread_bfe_checked [OF assms(2-4)] allocate_def)
qed

theorem thread_bfe_tier_gate_witness:
  "(\<exists>msg. thread_bfe lp64 unsafe 0 [0, 0] = (Inl (Throw (invalid_argument msg)), 0, [])
       \<and> sublist ''unsafe'' msg \<and> sublist ''thread safety'' msg)
   \<and> (\<exists>msg. thread_bfe ilp32 wide_unsafe 0 [0, 0, 0] = (Inl (Throw (overflow_error msg)), 0, []))
   \<and> (\<exists>msg. thread_bfe lp64 quarter_unsafe 0 [0, 0, 0] = (Inl (Throw (length_error msg)), 0, []))
   \<and> thread_bfe lp64 wide_unsafe 0 [0, 0, 0] = (Inl (Throw bad_alloc), 0, [])"
  using thread_bfe_tier_gate [of unsafe "[0, 0]" lp64 0]
        thread_bfe_tier_gate [of wide_unsafe "[0, 0, 0]" ilp32 0]
        thread_bfe_tier_gate [of quarter_unsafe "[0, 0, 0]" lp64 0]
        thread_bfe_tier_gate [of wide_unsafe "[0, 0, 0]" lp64 0]
  by (simp add: unsafe_def wide_unsafe_def wide_def quarter_unsafe_def lp64_def ilp32_def)

text \<open>
  Claim C7 as stated fails: on a platform with a 32-bit \<^verbatim>\<open>size_t\<close>, the problem
  \<open>wide_unsafe\<close> (tier \<open>none\<close>, \<open>nx = 1\<close>, \<open>nf = 2147483647\<close>) and a batch of three
  decision vectors make \<^verbatim>\<open>thread_bfe\<close> raise \<^verbatim>\<open>overflow_error\<close>, not \<^verbatim>\<open>invalid_argument\<close>.
\<close>

theorem thread_bfe_tier_gate_counterexample:
  "ts_int (prob_thread_safety wide_unsafe) < ts_int ts_basic
   \<and> thread_bfe ilp32 wide_unsafe 0 [0, 0, 0] =
       (Inl (Throw (overflow_error
          ''Overflow detected in the computation of the size of the output of a thread_bfe'')), 0, [])
   \<and> \<not> raises_invalid_argument (thread_bfe ilp32 wide_unsafe 0 [0, 0, 0])"
  by (simp add: thread_bfe_def Let_def wide_unsafe_def wide_def ilp32_def)

lemma overflow_guard_iff:
  "0 < (nf :: nat) \<Longrightarrow> m div nf < k \<longleftrightarrow> m < k * nf"
  by (simp add: div_less_iff_less_mult)

text \<open>
  Claim C8, amended. For a problem with positive \<open>nx\<close> and \<open>nf\<close> and a batch whose
  length is a multiple of \<open>nx\<close>, \<^verbatim>\<open>thread_bfe\<close> raises \<^verbatim>\<open>overflow_error\<close> whenever
  \<open>k * nf\<close> exceeds \<open>size_max\<close>, the largest value of \<^verbatim>\<open>vector_double::size_type\<close>, and
  it does so before any call on the problem. In particular it raises it for \<open>nx = 1\<close>,
  \<open>k = 3\<close> and \<open>nf = size_max / 2\<close> (with \<open>size_max\<close> at least 4). The bound is that of
  the index type, not \<^verbatim>\<open>UINT_MAX\<close>.
\<close>

theorem thread_bfe_overflow_guard:
  assumes "prob_nx p > 0" and "prob_nf p > 0" and "length dvs mod prob_nx p = 0"
  shows "(size_max rt < (length dvs div prob_nx p) * prob_nf p \<longrightarrow>
            thread_bfe rt p fevals dvs =
              (Inl (Throw (overflow_error
                 ''Overflow detected in the computation of the size of the output of a thread_bfe'')),
               fevals, []))
       \<and> (prob_nx p = 1 \<and> prob_nf p = size_max rt div 2 \<and> length dvs = 3 \<and> 4 \<le> size_max rt \<longrightarrow>
            raises_overflow (thread_bfe rt p fevals dvs))"
proof (intro conjI impI)
  assume "size_max rt < (length dvs div prob_nx p) * prob_nf p"
  then have "size_max rt div prob_nf p < length dvs div prob_nx p"
    using assms(2) by (simp add: overflow_guard_iff)
  then show "thread_bfe rt p fevals dvs =
              (Inl (Throw (overflow_error
                 ''Overflow detected in the computation of the size of the output of a thread_bfe'')),
               fevals, [])"
    by (simp add: thread_bfe_checked [OF assms])
next
  assume h: "prob_nx p = 1 \<and> prob_nf p = size_max rt div 2 \<and> length dvs = 3 \<and> 4 \<le> size_max rt"
  then have "size_max rt < 3 * (size_max rt div 2)" by arith
  with h have "size_max rt < (length dvs div prob_nx p) * prob_nf p" by simp
  then have "size_max rt div prob_nf p < length dvs div prob_nx p"
    using assms(2) by (simp add: overflow_guard_iff)
  then show "raises_overflow (thread_bfe rt p fevals dvs)"
    by (simp add: thread_bfe_checked [OF assms])
qed

theorem thread_bfe_overflow_guard_witness:
  "prob_nx wide > 0 \<and> prob_nf wide > 0 \<and> length [0, 0, 0 :: real] mod prob_nx wide = 0
   \<and> prob_nf wide = size_max ilp32 div 2
   \<and> thread_bfe ilp32 wide 0 [0, 0, 0] =
       (Inl (Throw (overflow_error
          ''Overflow detected in the computation of the size of the output of a thread_bfe'')), 0, [])
   \<and> raises_overflow (thread_bfe ilp32 wide 0 [0, 0, 0])"
  using thread_bfe_overflow_guard [of wide "[0, 0, 0]" ilp32 0]
  by (simp add: wide_def ilp32_def)

lemma thread_bfe_no_overflow:
  assumes "prob_nx p > 0" and "prob_nf p > 0" and "length dvs mod prob_nx p = 0"
      and fits: "length dvs div prob_nx p \<le> size_max rt div prob_nf p"
      and fit: "\<And>dv m. udp_fitness p dv \<noteq> Inl (overflow_error m)"
  shows "\<not> raises_overflow (thread_bfe rt p fevals dvs)"
proof
  assume "raises_overflow (thread_bfe rt p fevals dvs)"
  then obtain m fv cs where r: "thread_bfe rt p fevals dvs = (Inl (Throw (overflow_error m)), fv, cs)"
    by (auto simp: raises_overflow_iff)
  let ?k = "length dvs div prob_nx p"
  have ref: "\<And>f c. parallel_for (tbb_split rt ?k)
          (body_by_reference rt dvs (prob_nx p) (prob_nf p) ?k p) fevals
          (replicate (?k * prob_nf p) 0) \<noteq> (Inl (Throw (overflow_error m)), f, c)"
  proof
    fix f c
    assume "parallel_for (tbb_split rt ?k)
          (body_by_reference rt dvs (prob_nx p) (prob_nf p) ?k p) fevals
          (replicate (?k * prob_nf p) 0) = (Inl (Throw (overflow_error m)), f, c)"
    then show False
      by (rule parallel_for_throws [rotated]) (use fit in \<open>auto dest: body_by_reference_throws\<close>)
  qed
  have cop: "\<And>f c. parallel_for (tbb_split rt ?k)
          (body_by_copy rt dvs (prob_nx p) (prob_nf p) ?k p) fevals
          (replicate (?k * prob_nf p) 0) \<noteq> (Inl (Throw (overflow_error m)), f, c)"
  proof
    fix f c
    assume "parallel_for (tbb_split rt ?k)
          (body_by_copy rt dvs (prob_nx p) (prob_nf p) ?k p) fevals
          (replicate (?k * prob_nf p) 0) = (Inl (Throw (overflow_error m)), f, c)"
    then show False
      by (rule parallel_for_throws [rotated]) (use fit in \<open>auto dest: body_by_copy_throws\<close>)
  qed
  from r fits ref cop show False
    by (auto simp: thread_bfe_checked [OF assms(1-3)] numeric_cast_ull_def
             split: if_splits prod.splits sum.splits option.splits dest: allocate_throws)
qed

text \<open>
  Claim C8 as stated fails: with a 64-bit \<^verbatim>\<open>size_t\<close> and a 32-bit \<^verbatim>\<open>unsigned int\<close>, the
  problem \<open>wide\<close> has \<open>nx = 1\<close> and \<open>nf = UINT_MAX / 2 = 2147483647\<close>, and for a batch
  with \<open>k = 3\<close> the guard compares 3 with 18446744073709551615 div 2147483647 =
  8589934596 and lets the call through: \<^verbatim>\<open>thread_bfe\<close> does not raise \<^verbatim>\<open>overflow_error\<close>,
  it goes on to the allocation of the output buffer.
\<close>

theorem thread_bfe_overflow_guard_counterexample:
  "prob_nx wide = 1 \<and> prob_nf wide = 4294967295 div 2 \<and> length [0, 0, 0 :: real] = 3
   \<and> \<not> raises_overflow (thread_bfe lp64 wide 0 [0, 0, 0])"
proof -
  have "\<not> raises_overflow (thread_bfe lp64 wide 0 [0, 0, 0])"
    by (rule thread_bfe_no_overflow) (simp_all add: wide_def lp64_def)
  then show ?thesis by (simp add: wide_def)
qed

section \<open>\<^verbatim>\<open>default_bfe\<close>\<close>

lemma default_bfe_message:
  fixes name :: string
  defines "msg \<equiv> ''Cannot execute fitness evaluations in batch mode for a problem of type '' @ sq
            @ name @ sq
            @ '': the problem does not implement the batch_fitness() member function, and its thread safety ''
            @ ''level is not sufficient to run a thread-based batch fitness evaluation implementation''"
  shows "sublist name msg" and "sublist ''batch_fitness()'' msg" and "sublist ''thread safety'' msg"
proof -
  show "sublist name msg"
    unfolding msg_def by (rule sublist_appendR, rule sublist_appendR, rule sublist_append_rightI)
  have "'': the problem does not implement the batch_fitness() member function, and its thread safety ''
          = '': the problem does not implement the '' @ ''batch_fitness()''
            @ '' member function, and its thread safety ''"
    by simp
  then have "sublist ''batch_fitness()''
     '': the problem does not implement the batch_fitness() member function, and its thread safety ''"
    by (simp only: sublist_appendI)
  then show "sublist ''batch_fitness()'' msg"
    unfolding msg_def by (intro sublist_appendR sublist_appendL)
  have "'': the problem does not implement the batch_fitness() member function, and its thread safety ''
          = '': the problem does not implement the batch_fitness() member function, and its ''
            @ ''thread safety'' @ '' ''"
    by simp
  then have "sublist ''thread safety''
     '': the problem does not implement the batch_fitness() member function, and its thread safety ''"
    by (simp only: sublist_appendI)
  then show "sublist ''thread safety'' msg"
    unfolding msg_def by (intro sublist_appendR sublist_appendL)
qed

text \<open>
  Claim C2. \<^verbatim>\<open>default_bfe\<close> returns what \<^verbatim>\<open>member_bfe\<close> returns when the problem has a
  batch fitness; otherwise what \<^verbatim>\<open>thread_bfe\<close> returns when the problem's tier is at least
  \<open>basic\<close>; otherwise it raises \<^verbatim>\<open>invalid_argument\<close>, without any call on the problem,
  with a message that contains the problem's name and names both missing capabilities
  (\<^verbatim>\<open>batch_fitness()\<close> and the thread safety level).
\<close>

theorem default_bfe_dispatch:
  "(has_batch_fitness p \<longrightarrow> default_bfe rt p fevals dvs = member_bfe p fevals dvs)
   \<and> (\<not> has_batch_fitness p \<and> ts_int ts_basic \<le> ts_int (prob_thread_safety p) \<longrightarrow>
        default_bfe rt p fevals dvs = thread_bfe rt p fevals dvs)
   \<and> (\<not> has_batch_fitness p \<and> ts_int (prob_thread_safety p) < ts_int ts_basic \<longrightarrow>
        (\<exists>msg. default_bfe rt p fevals dvs = (Inl (Throw (invalid_argument msg)), fevals, [])
           \<and> sublist (prob_name p) msg \<and> sublist ''batch_fitness()'' msg
           \<and> sublist ''thread safety'' msg))"
  using default_bfe_message [of "prob_name p"]
  by (simp add: default_bfe_def s_func_def default_bfe_cpp_impl_def)

lemma default_bfe_doubles:
  "default_bfe lp64 doubles 7 [1, 2, 3] = (Inr [2, 4, 6], 7, [batch_fitness_call the_problem [1, 2, 3]])"
  by (simp add: default_bfe_def s_func_def default_bfe_cpp_impl_def has_batch_fitness_def
        member_bfe_def prob_invoke_mem_batch_fitness_def doubles_def)

theorem default_bfe_dispatch_witness:
  "has_batch_fitness doubles
   \<and> default_bfe lp64 doubles 7 [1, 2, 3] = member_bfe doubles 7 [1, 2, 3]
   \<and> default_bfe lp64 doubles 7 [1, 2, 3]
       = (Inr [2, 4, 6], 7, [batch_fitness_call the_problem [1, 2, 3]])
   \<and> \<not> has_batch_fitness squares
   \<and> default_bfe lp64 squares 7 [1, 2, 3] =
       (Inr [1, 4, 9], 10,
        [fitness_call a_copy [1], fitness_call a_copy [2], fitness_call a_copy [3],
         increment_fevals_call the_problem 3])
   \<and> (\<exists>msg. default_bfe lp64 unsafe 0 [0, 0] = (Inl (Throw (invalid_argument msg)), 0, [])
         \<and> sublist ''unsafe'' msg \<and> sublist ''batch_fitness()'' msg
         \<and> sublist ''thread safety'' msg)"
  using default_bfe_dispatch [of doubles lp64 7 "[1, 2, 3]"]
        default_bfe_dispatch [of squares lp64 7 "[1, 2, 3]"]
        default_bfe_dispatch [of unsafe lp64 0 "[0, 0]"]
        default_bfe_doubles thread_bfe_squares
  by (simp add: has_batch_fitness_def doubles_def squares_def unsafe_def)

section \<open>The \<^verbatim>\<open>bfe\<close> container\<close>

text \<open>
  Claim C9. The copy of a live \<^verbatim>\<open>bfe\<close> has the name and the thread-safety tier that the
  original has cached, and holds a clone of the original's driver. The cached fields are
  copied as they are: nothing asks the cloned driver, so the copy keeps them also when
  the driver itself would now report another name or tier.
\<close>

theorem bfe_copy_keeps_cached_attributes:
  assumes "m_ptr b = Some i"
  shows "\<exists>b'. bfe_copy b = Inr b' \<and> m_ptr b' = Some (clone i)
            \<and> get_name b' = get_name b \<and> get_thread_safety b' = get_thread_safety b"
  using assms by (simp add: bfe_copy_def get_name_def get_thread_safety_def)

theorem bfe_copy_keeps_cached_attributes_witness:
  "m_ptr renamed_bfe = Some (named_inner\<lparr>m_value := (''second'', ts_none)\<rparr>)
   \<and> (\<exists>b'. bfe_copy renamed_bfe = Inr b'
          \<and> m_ptr b' = Some (clone (named_inner\<lparr>m_value := (''second'', ts_none)\<rparr>))
          \<and> get_name b' = ''first'' \<and> get_thread_safety b' = ts_constant)
   \<and> inner_get_name (clone (named_inner\<lparr>m_value := (''second'', ts_none)\<rparr>)) = ''second''
   \<and> inner_get_thread_safety (clone (named_inner\<lparr>m_value := (''second'', ts_none)\<rparr>)) = ts_none"
proof -
  have live: "m_ptr renamed_bfe = Some (named_inner\<lparr>m_value := (''second'', ts_none)\<rparr>)"
    by (simp add: renamed_bfe_def)
  have cached: "get_name renamed_bfe = ''first''" "get_thread_safety renamed_bfe = ts_constant"
    by (simp_all add: renamed_bfe_def bfe_ctor_def named_inner_def get_name_def
          get_thread_safety_def inner_get_name_def inner_get_thread_safety_def)
  have driver: "inner_get_name (clone (named_inner\<lparr>m_value := (''second'', ts_none)\<rparr>)) = ''second''"
    "inner_get_thread_safety (clone (named_inner\<lparr>m_value := (''second'', ts_none)\<rparr>)) = ts_none"
    by (simp_all add: named_inner_def clone_def inner_get_name_def inner_get_thread_safety_def)
  from bfe_copy_keeps_cached_attributes [OF live] live cached driver show ?thesis
    by simp
qed

lemma bfe_call_checked:
  assumes "bfe_check_input_dvs p dvs = None" and "m_ptr b = Some i"
  shows "bfe_call b p fevals dvs =
     (case inner_call i p fevals dvs of
        (Inl x, fevals', cs) \<Rightarrow> (Inl x, fevals', cs)
      | (Inr retval, fevals', cs) \<Rightarrow>
          if length retval = (length dvs div prob_nx p) * prob_nf p then (Inr retval, fevals', cs)
          else (Inl (Throw (invalid_argument ''the length of the batch of fitness vectors is wrong'')),
                fevals', cs))"
  using assms
  by (auto simp: bfe_call_def bfe_check_output_fvs_def split: prod.splits sum.splits)

lemma bfe_check_input_dvs_None:
  "bfe_check_input_dvs p dvs = None \<Longrightarrow> prob_nx p > 0 \<and> length dvs mod prob_nx p = 0"
  by (simp add: bfe_check_input_dvs_def split: if_splits)

text \<open>
  Claim C1. For a live \<^verbatim>\<open>bfe\<close> and a batch that passes the input check (so its length
  is a multiple of \<open>nx\<close>): every buffer that the call operator returns has length
  \<open>(len(dvs)/nx) * nf\<close>; a buffer of that length returned by the driver is returned as
  it is; and if the driver returns a buffer of any other length the call raises
  \<^verbatim>\<open>invalid_argument\<close> and no buffer is returned.
\<close>

theorem bfe_call_batch_shape:
  assumes "bfe_check_input_dvs p dvs = None" and "m_ptr b = Some i"
  shows "length dvs mod prob_nx p = 0
     \<and> (\<forall>fvs fevals' cs. bfe_call b p fevals dvs = (Inr fvs, fevals', cs)
          \<longrightarrow> length fvs = (length dvs div prob_nx p) * prob_nf p)
     \<and> (\<forall>fvs fevals' cs. inner_call i p fevals dvs = (Inr fvs, fevals', cs)
            \<and> length fvs = (length dvs div prob_nx p) * prob_nf p
          \<longrightarrow> bfe_call b p fevals dvs = (Inr fvs, fevals', cs))
     \<and> (\<forall>fvs fevals' cs. inner_call i p fevals dvs = (Inr fvs, fevals', cs)
            \<and> length fvs \<noteq> (length dvs div prob_nx p) * prob_nf p
          \<longrightarrow> (\<exists>msg. bfe_call b p fevals dvs = (Inl (Throw (invalid_argument msg)), fevals', cs)))"
  using bfe_check_input_dvs_None [OF assms(1)]
  by (auto simp: bfe_call_checked [OF assms] split: prod.splits sum.splits if_splits)

lemma squares_input_ok: "bfe_check_input_dvs squares [1, 2, 3] = None"
  by (simp add: bfe_check_input_dvs_def squares_def)

theorem bfe_call_batch_shape_witness:
  "bfe_check_input_dvs squares [1, 2, 3] = None
   \<and> bfe_call (bfe_ctor (default_bfe_inner lp64)) squares 7 [1, 2, 3] =
       (Inr [1, 4, 9], 10,
        [fitness_call a_copy [1], fitness_call a_copy [2], fitness_call a_copy [3],
         increment_fevals_call the_problem 3])
   \<and> length [1, 4, 9 :: real] = (length [1, 2, 3 :: real] div prob_nx squares) * prob_nf squares
   \<and> inner_call too_long_inner squares 7 [1, 2, 3] = (Inr [0, 1, 2, 3], 7, [])
   \<and> (\<exists>msg. bfe_call (bfe_ctor too_long_inner) squares 7 [1, 2, 3]
              = (Inl (Throw (invalid_argument msg)), 7, []))"
proof -
  have d: "m_ptr (bfe_ctor (default_bfe_inner lp64)) = Some (default_bfe_inner lp64)"
    and t: "m_ptr (bfe_ctor too_long_inner) = Some too_long_inner"
    by (simp_all add: bfe_ctor_def)
  have dc: "inner_call (default_bfe_inner lp64) squares 7 [1, 2, 3] =
       (Inr [1, 4, 9], 10,
        [fitness_call a_copy [1], fitness_call a_copy [2], fitness_call a_copy [3],
         increment_fevals_call the_problem 3])"
    using thread_bfe_squares
    by (simp add: inner_call_def default_bfe_inner_def default_bfe_def s_func_def
          default_bfe_cpp_impl_def has_batch_fitness_def squares_def)
  have tc: "inner_call too_long_inner squares 7 [1, 2, 3] = (Inr [0, 1, 2, 3], 7, [])"
    by (simp add: inner_call_def too_long_inner_def)
  have len: "length [1, 4, 9 :: real] = (length [1, 2, 3 :: real] div prob_nx squares) * prob_nf squares"
    and len': "length [0, 1, 2, 3 :: real] \<noteq> (length [1, 2, 3 :: real] div prob_nx squares) * prob_nf squares"
    by (simp_all add: squares_def)
  from bfe_call_batch_shape [OF squares_input_ok d, of 7] dc len
  have 1: "bfe_call (bfe_ctor (default_bfe_inner lp64)) squares 7 [1, 2, 3] =
       (Inr [1, 4, 9], 10,
        [fitness_call a_copy [1], fitness_call a_copy [2], fitness_call a_copy [3],
         increment_fevals_call the_problem 3])"
    by blast
  from bfe_call_batch_shape [OF squares_input_ok t, of 7] tc len'
  have 2: "\<exists>msg. bfe_call (bfe_ctor too_long_inner) squares 7 [1, 2, 3]
              = (Inl (Throw (invalid_argument msg)), 7, [])"
    by blast
  from squares_input_ok 1 len tc 2 show ?thesis by blast
qed

end
